theory Spec2Isabelle
  imports Main
begin

section \<open>JavaScript values as the program reads them\<close>

text \<open>
  The program reads JSON objects whose fields may be missing (\<open>undefined\<close>) or \<open>null\<close>;
  both are \<open>None\<close> here. The operator \<open>a || b\<close> yields \<open>a\<close> when \<open>a\<close> is truthy and \<open>b\<close>
  otherwise; for a string-valued field the falsy values are the missing value and the
  empty string, for a flag they are the missing value and \<open>false\<close>.
\<close>

definition truthy :: "string option \<Rightarrow> bool" where
  "truthy v = (case v of None \<Rightarrow> False | Some s \<Rightarrow> s \<noteq> [])"

definition truthy_flag :: "bool option \<Rightarrow> bool" where
  "truthy_flag v = (case v of None \<Rightarrow> False | Some b \<Rightarrow> b)"

text \<open>\<open>a || b\<close> between two optional strings, and \<open>a || 'literal'\<close>.\<close>

definition or_field :: "string option \<Rightarrow> string option \<Rightarrow> string option" where
  "or_field a b = (if truthy a then a else b)"

definition or_text :: "string option \<Rightarrow> string \<Rightarrow> string" where
  "or_text a d = (case a of None \<Rightarrow> d | Some s \<Rightarrow> if s \<noteq> [] then s else d)"

text \<open>\<open>Array.prototype.join\<close>: a missing element is rendered as the empty string.\<close>

fun join :: "string \<Rightarrow> string list \<Rightarrow> string" where
  "join sep [] = []"
| "join sep [x] = x"
| "join sep (x # y # ys) = x @ sep @ join sep (y # ys)"

definition join_names :: "string option list \<Rightarrow> string" where
  "join_names ns = join '', '' (map (\<lambda>n. case n of None \<Rightarrow> [] | Some s \<Rightarrow> s) ns)"

text \<open>The values of a list that are not missing.\<close>

fun present :: "'a option list \<Rightarrow> 'a list" where
  "present [] = []"
| "present (None # vs) = present vs"
| "present (Some v # vs) = v # present vs"

text \<open>
  A value turned into a string, by a template literal or by a built-in that takes a
  string: the missing value reads \<open>undefined\<close>.
\<close>

definition js_string :: "string option \<Rightarrow> string" where
  "js_string v = (case v of None \<Rightarrow> ''undefined'' | Some s \<Rightarrow> s)"

section \<open>Data model\<close>

text \<open>
  The objects of the source service, with the fields the program requests through
  \<open>opt_fields\<close> and reads. (\<open>custom_fields\<close> is requested and never read.)
\<close>

record user =
  user_name :: "string option"

record tag =
  tag_name :: "string option"

record task =
  task_name :: "string option"
  completed :: "bool option"
  completed_at :: "string option"
  due_on :: "string option"
  due_at :: "string option"
  assignee :: "user option"
  task_notes :: "string option"
  tags :: "tag list option"
  task_created_at :: "string option"
  task_modified_at :: "string option"
  permalink_url :: "string option"

record project =
  gid :: string
  project_name :: string
  created_at :: "string option"
  modified_at :: "string option"
  archived :: "bool option"
  project_notes :: "string option"
  owner :: "user option"

section \<open>Row projection (createTasksSpreadsheet, the Tasks tab)\<close>

definition headers :: "string list" where
  "headers =
    [''Task Name'', ''Status'', ''Assignee'', ''Due Date'',
     ''Completed Date'', ''Tags'', ''Notes'', ''URL'',
     ''Created At'', ''Modified At'']"

text \<open>\<open>task.assignee?.name\<close> and \<open>task.tags?.map(t => t.name).join(', ')\<close>.\<close>

definition assignee_name :: "task \<Rightarrow> string option" where
  "assignee_name t = (case assignee t of None \<Rightarrow> None | Some u \<Rightarrow> user_name u)"

definition tags_joined :: "task \<Rightarrow> string option" where
  "tags_joined t = (case tags t of None \<Rightarrow> None | Some ts \<Rightarrow> Some (join_names (map tag_name ts)))"

definition task_row :: "task \<Rightarrow> string list" where
  "task_row t =
    [or_text (task_name t) '''',
     (if truthy_flag (completed t) then ''Completed'' else ''Incomplete''),
     or_text (assignee_name t) ''Unassigned'',
     or_text (or_field (due_on t) (due_at t)) '''',
     or_text (completed_at t) '''',
     or_text (tags_joined t) '''',
     or_text (task_notes t) '''',
     or_text (permalink_url t) '''',
     or_text (task_created_at t) '''',
     or_text (task_modified_at t) '''']"

definition task_rows :: "task list \<Rightarrow> string list list" where
  "task_rows tasks = map task_row tasks"

section \<open>Configuration and the diagnostic route\<close>

text \<open>
  The four configuration values are environment variables: unset (\<open>None\<close>) or set to a
  string, which may be empty.
\<close>

record config =
  ASANA_ACCESS_TOKEN :: "string option"
  ASANA_WORKSPACE_ID :: "string option"
  GOOGLE_DRIVE_FOLDER_ID :: "string option"
  GOOGLE_SERVICE_ACCOUNT_KEY :: "string option"



subsection \<open>Loading the module\<close>

text \<open>
  When the module is loaded it evaluates
  \<open>JSON.parse(process.env.GOOGLE_SERVICE_ACCOUNT_KEY)\<close>. The built-in turns its argument
  into a string and throws unless that string is a JSON text; a throw at this point
  ends the process, and no route is ever served. \<open>JSON_parse_accepts\<close> recognises the
  JSON texts: one value (an object, an array, a string, a number, \<open>true\<close>, \<open>false\<close> or
  \<open>null\<close>) with white space around its tokens. It reads the text character by
  character, with the stack of the arrays and objects that are open. (The constructors
  of the two client libraries are taken not to throw.)
\<close>

datatype frame = InArray | InObject

datatype jstate =
    AtValue | AtValueOrClose | AtKeyOrClose | AtKey | AtColon | AfterValue
  | InString bool | InEscape bool | InHex bool nat | InLiteral string
  | AfterMinus | AfterZero | InInt | AfterDot | InFrac | AfterExp | AfterExpSign | InExp

definition is_ws :: "char \<Rightarrow> bool" where
  "is_ws c = (c = CHR '' '' \<or> c = CHR 0x09 \<or> c = CHR 0x0A \<or> c = CHR 0x0D)"

definition is_digit :: "char \<Rightarrow> bool" where
  "is_digit c = (c \<in> set ''0123456789'')"

definition is_hex :: "char \<Rightarrow> bool" where
  "is_hex c = (c \<in> set ''0123456789abcdefABCDEF'')"

text \<open>The first character of a value. \<open>CHR 0x22\<close> is the double quote.\<close>

definition start_value :: "char \<Rightarrow> frame list \<Rightarrow> (jstate \<times> frame list) option" where
  "start_value c st =
    (if c = CHR ''{'' then Some (AtKeyOrClose, InObject # st)
     else if c = CHR ''['' then Some (AtValueOrClose, InArray # st)
     else if c = CHR 0x22 then Some (InString False, st)
     else if c = CHR ''-'' then Some (AfterMinus, st)
     else if c = CHR ''0'' then Some (AfterZero, st)
     else if is_digit c then Some (InInt, st)
     else if c = CHR ''t'' then Some (InLiteral ''rue'', st)
     else if c = CHR ''f'' then Some (InLiteral ''alse'', st)
     else if c = CHR ''n'' then Some (InLiteral ''ull'', st)
     else None)"

text \<open>The character after a complete value: a comma or the bracket that closes.\<close>

definition after_value :: "char \<Rightarrow> frame list \<Rightarrow> (jstate \<times> frame list) option" where
  "after_value c st =
    (if is_ws c then Some (AfterValue, st)
     else if c = CHR '','' then
       (case st of
          [] \<Rightarrow> None
        | InArray # _ \<Rightarrow> Some (AtValue, st)
        | InObject # _ \<Rightarrow> Some (AtKey, st))
     else if c = CHR '']'' then
       (case st of InArray # r \<Rightarrow> Some (AfterValue, r) | _ \<Rightarrow> None)
     else if c = CHR ''}'' then
       (case st of InObject # r \<Rightarrow> Some (AfterValue, r) | _ \<Rightarrow> None)
     else None)"

text \<open>
  In a string, \<open>InString True\<close> is a key and \<open>InString False\<close> a value; \<open>CHR 0x5C\<close> is the
  backslash, and a character below \<open>0x20\<close> is refused. A number ends at the first
  character that cannot continue it, which is then read as the character after a value.
\<close>

fun json_step :: "jstate \<Rightarrow> frame list \<Rightarrow> char \<Rightarrow> (jstate \<times> frame list) option" where
  "json_step AtValue st c = (if is_ws c then Some (AtValue, st) else start_value c st)"
| "json_step AtValueOrClose st c =
    (if is_ws c then Some (AtValueOrClose, st)
     else if c = CHR '']'' then Some (AfterValue, tl st)
     else start_value c st)"
| "json_step AtKeyOrClose st c =
    (if is_ws c then Some (AtKeyOrClose, st)
     else if c = CHR ''}'' then Some (AfterValue, tl st)
     else if c = CHR 0x22 then Some (InString True, st)
     else None)"
| "json_step AtKey st c =
    (if is_ws c then Some (AtKey, st)
     else if c = CHR 0x22 then Some (InString True, st)
     else None)"
| "json_step AtColon st c =
    (if is_ws c then Some (AtColon, st)
     else if c = CHR '':'' then Some (AtValue, st)
     else None)"
| "json_step AfterValue st c = after_value c st"
| "json_step (InString k) st c =
    (if c = CHR 0x22 then Some (if k then AtColon else AfterValue, st)
     else if c = CHR 0x5C then Some (InEscape k, st)
     else if of_char c < (32 :: nat) then None
     else Some (InString k, st))"
| "json_step (InEscape k) st c =
    (if c \<in> set [CHR 0x22, CHR 0x5C, CHR ''/'', CHR ''b'', CHR ''f'', CHR ''n'', CHR ''r'', CHR ''t'']
     then Some (InString k, st)
     else if c = CHR ''u'' then Some (InHex k 4, st)
     else None)"
| "json_step (InHex k n) st c =
    (if is_hex c \<and> 0 < n then Some (if n = 1 then InString k else InHex k (n - 1), st) else None)"
| "json_step (InLiteral l) st c =
    (case l of
       [] \<Rightarrow> None
     | x # xs \<Rightarrow> if c = x then Some (if xs = [] then AfterValue else InLiteral xs, st) else None)"
| "json_step AfterMinus st c =
    (if c = CHR ''0'' then Some (AfterZero, st)
     else if is_digit c then Some (InInt, st)
     else None)"
| "json_step AfterZero st c =
    (if c = CHR ''.'' then Some (AfterDot, st)
     else if c = CHR ''e'' \<or> c = CHR ''E'' then Some (AfterExp, st)
     else after_value c st)"
| "json_step InInt st c =
    (if is_digit c then Some (InInt, st)
     else if c = CHR ''.'' then Some (AfterDot, st)
     else if c = CHR ''e'' \<or> c = CHR ''E'' then Some (AfterExp, st)
     else after_value c st)"
| "json_step AfterDot st c = (if is_digit c then Some (InFrac, st) else None)"
| "json_step InFrac st c =
    (if is_digit c then Some (InFrac, st)
     else if c = CHR ''e'' \<or> c = CHR ''E'' then Some (AfterExp, st)
     else after_value c st)"
| "json_step AfterExp st c =
    (if c = CHR ''+'' \<or> c = CHR ''-'' then Some (AfterExpSign, st)
     else if is_digit c then Some (InExp, st)
     else None)"
| "json_step AfterExpSign st c = (if is_digit c then Some (InExp, st) else None)"
| "json_step InExp st c = (if is_digit c then Some (InExp, st) else after_value c st)"

definition value_ended :: "jstate \<Rightarrow> bool" where
  "value_ended q = (q \<in> {AfterValue, AfterZero, InInt, InFrac, InExp})"

fun json_run :: "jstate \<Rightarrow> frame list \<Rightarrow> string \<Rightarrow> bool" where
  "json_run q st [] = (st = [] \<and> value_ended q)"
| "json_run q st (c # cs) =
    (case json_step q st c of None \<Rightarrow> False | Some (q', st') \<Rightarrow> json_run q' st' cs)"

definition JSON_parse_accepts :: "string \<Rightarrow> bool" where
  "JSON_parse_accepts s = json_run AtValue [] s"

text \<open>The module loads, and the server starts, when the credential parses.\<close>

definition module_loads :: "config \<Rightarrow> bool" where
  "module_loads cfg = JSON_parse_accepts (js_string (GOOGLE_SERVICE_ACCOUNT_KEY cfg))"

subsection \<open>GET /test\<close>







section \<open>Errors and the outside world\<close>

text \<open>
  A thrown JavaScript error; the program only ever reads its \<open>message\<close>.
\<close>

datatype js_error = Error (message: string)

text \<open>
  The request \<open>fetchProjectTasks\<close> sends and the body it gets back
  (\<open>response.data\<close>, with its \<open>data\<close> array and its \<open>next_page\<close> object or \<open>null\<close>).
\<close>

record request =
  req_project :: string
  req_opt_fields :: string
  req_limit :: nat
  req_offset :: "string option"

record next_page =
  offset :: "string option"

record page =
  data :: "task list"
  next_page :: "next_page option"

text \<open>A cell of a spreadsheet range, as sent in a \<open>values\<close> array.\<close>

datatype cell = Str string | Num nat | Null

text \<open>A file of the destination store.\<close>

record dfile =
  file_id :: string
  file_name :: string
  mime_type :: string
  parents :: "string list"
  trashed :: bool

text \<open>
  The calls the program makes to the two services, with the arguments it sends:
  \<open>FilesCreate name mimeType parents\<close>, \<open>SpreadsheetsCreate title tabs\<close>,
  \<open>FilesUpdate fileId addParents\<close>, \<open>ValuesUpdate spreadsheetId range values\<close>. A parent
  sent to \<open>files.create\<close> is a string or the missing value.
\<close>

datatype call =
    GetProjects
  | GetTasks request
  | FilesList string
  | FilesCreate string string "string option list"
  | SpreadsheetsCreate string "string list"
  | FilesUpdate string string
  | ValuesUpdate string string "cell list list"
  | BatchUpdate string

text \<open>
  The world the program runs in. The source service answers the project listing and
  each task request (an answer is an error or a body). The destination store holds
  files and hands out identifiers for new ones. \<open>log\<close> is the sequence of calls made so
  far. \<open>faults\<close> is an arbitrary schedule of failures of the destination's calls: the
  call made when \<open>n\<close> calls have been logged fails with \<open>e\<close> when \<open>faults n = Some e\<close>.
  \<open>clock\<close> gives the time, as an ISO string, as a function of the number of calls made.
\<close>

record world =
  asana_projects :: "js_error + project list"
  asana_tasks :: "request \<Rightarrow> js_error + page"
  files :: "dfile list"
  new_id :: "nat \<Rightarrow> string"
  faults :: "nat \<Rightarrow> js_error option"
  clock :: "nat \<Rightarrow> string"
  log :: "call list"

definition log_call :: "call \<Rightarrow> world \<Rightarrow> world" where
  "log_call c w = w\<lparr>log := log w @ [c]\<rparr>"

text \<open>\<open>new Date().toISOString()\<close>.\<close>

definition now :: "world \<Rightarrow> string" where
  "now w = clock w (length (log w))"

definition fault_now :: "world \<Rightarrow> js_error option" where
  "fault_now w = faults w (length (log w))"

text \<open>
  \<open>await m\<close> followed by the rest of the function: an error thrown by \<open>m\<close> leaves the
  function at once.
\<close>

definition await ::
  "(world \<Rightarrow> (js_error + 'a) \<times> world) \<Rightarrow> ('a \<Rightarrow> world \<Rightarrow> (js_error + 'b) \<times> world)
    \<Rightarrow> world \<Rightarrow> (js_error + 'b) \<times> world" where
  "await m k w = (case m w of (Inl e, w') \<Rightarrow> (Inl e, w') | (Inr x, w') \<Rightarrow> k x w')"

subsection \<open>The source service\<close>

definition axios_get_projects :: "world \<Rightarrow> (js_error + project list) \<times> world" where
  "axios_get_projects w = (asana_projects w, log_call GetProjects w)"

definition axios_get_tasks :: "request \<Rightarrow> world \<Rightarrow> (js_error + page) \<times> world" where
  "axios_get_tasks req w = (asana_tasks w req, log_call (GetTasks req) w)"

subsection \<open>The destination store's search language\<close>

text \<open>
  \<open>drive.files.list\<close> takes its condition as a string \<open>q\<close>. The store is modelled on
  the part of that language the program writes: clauses joined by \<open>and\<close>, each one of
  \<open>name='...'\<close>, \<open>'...' in parents\<close>, \<open>mimeType='...'\<close>, \<open>trashed=false\<close> and
  \<open>trashed=true\<close>. A string literal stands between single quotes; inside it a quote or
  a backslash is written with a backslash before it, and an unescaped quote ends it. A
  string that is not of this form is refused by the store (the call throws).
\<close>

definition quote :: char where
  "quote = CHR 0x27"

definition backslash :: char where
  "backslash = CHR 0x5C"

datatype clause = NameIs string | InParents string | MimeTypeIs string | TrashedIs bool

text \<open>The literal after its opening quote: its text and what follows the closing quote.\<close>

fun read_literal :: "string \<Rightarrow> (string \<times> string) option" where
  "read_literal [] = None"
| "read_literal (c # cs) =
    (if c = quote then Some ([], cs)
     else if c = backslash then
       (case cs of
          [] \<Rightarrow> None
        | d # ds \<Rightarrow>
            (if d = quote \<or> d = backslash
             then map_option (\<lambda>(s, r). (d # s, r)) (read_literal ds)
             else None))
     else map_option (\<lambda>(s, r). (c # s, r)) (read_literal cs))"

definition after :: "string \<Rightarrow> string \<Rightarrow> string option" where
  "after p s = (if take (length p) s = p then Some (drop (length p) s) else None)"

definition quoted :: "string \<Rightarrow> (string \<times> string) option" where
  "quoted s = (case s of [] \<Rightarrow> None | c # cs \<Rightarrow> if c = quote then read_literal cs else None)"

definition read_clause :: "string \<Rightarrow> (clause \<times> string) option" where
  "read_clause s =
    (case after ''name='' s of
       Some r \<Rightarrow> map_option (\<lambda>(v, r'). (NameIs v, r')) (quoted r)
     | None \<Rightarrow>
    (case after ''mimeType='' s of
       Some r \<Rightarrow> map_option (\<lambda>(v, r'). (MimeTypeIs v, r')) (quoted r)
     | None \<Rightarrow>
    (case after ''trashed=false'' s of
       Some r \<Rightarrow> Some (TrashedIs False, r)
     | None \<Rightarrow>
    (case after ''trashed=true'' s of
       Some r \<Rightarrow> Some (TrashedIs True, r)
     | None \<Rightarrow>
    (case quoted s of
       None \<Rightarrow> None
     | Some (v, r) \<Rightarrow> map_option (\<lambda>r'. (InParents v, r')) (after '' in parents'' r))))))"

function read_clauses :: "string \<Rightarrow> clause list option" where
  "read_clauses s =
    (case read_clause s of
       None \<Rightarrow> None
     | Some (c, r) \<Rightarrow>
         (if r = [] then Some [c]
          else (case after '' and '' r of
                  None \<Rightarrow> None
                | Some r' \<Rightarrow> map_option ((#) c) (read_clauses r'))))"
  by pat_completeness auto
termination
proof (relation "measure length")
  fix s x c r r'
  assume a: "read_clause s = Some x" "(c, r) = x" "r \<noteq> []" "after '' and '' r = Some r'"
  have lit: "read_literal t = Some (v, u) \<Longrightarrow> length u < length t" for t v u
    by (induction t arbitrary: v u rule: read_literal.induct)
       (fastforce split: if_splits list.splits)+
  have quo: "quoted t = Some (v, u) \<Longrightarrow> length u < length t" for t v u
    by (auto simp: quoted_def split: list.splits if_splits dest: lit)
  have aft: "after p t = Some u \<Longrightarrow> length u \<le> length t" for p t u
    by (auto simp: after_def split: if_splits)
  have "length r \<le> length s"
    using a(1,2) by (fastforce simp: read_clause_def split: option.splits dest!: quo aft)
  moreover have "length r' < length r"
    using a(3,4) by (cases r) (auto simp: after_def split: if_splits)
  ultimately show "(r', s) \<in> measure length" by simp
qed simp

definition parse_query :: "string \<Rightarrow> clause list option" where
  "parse_query q = read_clauses q"

fun holds :: "clause \<Rightarrow> dfile \<Rightarrow> bool" where
  "holds (NameIs v) f = (file_name f = v)"
| "holds (InParents p) f = (p \<in> set (parents f))"
| "holds (MimeTypeIs m) f = (mime_type f = m)"
| "holds (TrashedIs b) f = (trashed f = b)"

definition satisfies :: "clause list \<Rightarrow> dfile \<Rightarrow> bool" where
  "satisfies cs f = list_all (\<lambda>c. holds c f) cs"

subsection \<open>The destination store's calls\<close>

text \<open>
  Every call is logged; it fails when the schedule says so. A search answers with the
  files that satisfy the condition, in the store's order. A create appends a file with
  the next identifier, so a later search sees it; the store refuses a create whose
  list of parents holds a missing value.
\<close>

definition folder_mime :: string where
  "folder_mime = ''application/vnd.google-apps.folder''"

definition spreadsheet_mime :: string where
  "spreadsheet_mime = ''application/vnd.google-apps.spreadsheet''"

definition drive_files_list :: "string \<Rightarrow> world \<Rightarrow> (js_error + dfile list) \<times> world" where
  "drive_files_list q w =
    (case fault_now w of
       Some e \<Rightarrow> (Inl e, log_call (FilesList q) w)
     | None \<Rightarrow>
        (case parse_query q of
           None \<Rightarrow> (Inl (Error ''Invalid Value''), log_call (FilesList q) w)
         | Some cs \<Rightarrow> (Inr (filter (satisfies cs) (files w)), log_call (FilesList q) w)))"

definition drive_files_create ::
  "string \<Rightarrow> string \<Rightarrow> string option list \<Rightarrow> world \<Rightarrow> (js_error + string) \<times> world"
where
  "drive_files_create nm mime ps w =
    (case fault_now w of
       Some e \<Rightarrow> (Inl e, log_call (FilesCreate nm mime ps) w)
     | None \<Rightarrow>
        (if None \<in> set ps
         then (Inl (Error ''Invalid Value''), log_call (FilesCreate nm mime ps) w)
         else
           (Inr (new_id w (length (files w))),
            log_call (FilesCreate nm mime ps)
              (w\<lparr>files := files w @
                 [\<lparr>file_id = new_id w (length (files w)), file_name = nm, mime_type = mime,
                   parents = present ps, trashed = False\<rparr>]\<rparr>))))"

definition sheets_spreadsheets_create ::
  "string \<Rightarrow> string list \<Rightarrow> world \<Rightarrow> (js_error + string) \<times> world" where
  "sheets_spreadsheets_create title tabs w =
    (case fault_now w of
       Some e \<Rightarrow> (Inl e, log_call (SpreadsheetsCreate title tabs) w)
     | None \<Rightarrow>
        (Inr (new_id w (length (files w))),
         log_call (SpreadsheetsCreate title tabs)
           (w\<lparr>files := files w @
              [\<lparr>file_id = new_id w (length (files w)), file_name = title,
                mime_type = spreadsheet_mime, parents = [''root''], trashed = False\<rparr>]\<rparr>)))"

definition drive_files_update :: "string \<Rightarrow> string \<Rightarrow> world \<Rightarrow> (js_error + unit) \<times> world" where
  "drive_files_update fileId addParents w =
    (case fault_now w of
       Some e \<Rightarrow> (Inl e, log_call (FilesUpdate fileId addParents) w)
     | None \<Rightarrow>
        (Inr (),
         log_call (FilesUpdate fileId addParents)
           (w\<lparr>files := map (\<lambda>f. if file_id f = fileId
                                then f\<lparr>parents := parents f @ [addParents]\<rparr> else f)
                          (files w)\<rparr>)))"

definition sheets_values_update ::
  "string \<Rightarrow> string \<Rightarrow> cell list list \<Rightarrow> world \<Rightarrow> (js_error + unit) \<times> world" where
  "sheets_values_update sheet rng vals w =
    (case fault_now w of
       Some e \<Rightarrow> (Inl e, log_call (ValuesUpdate sheet rng vals) w)
     | None \<Rightarrow> (Inr (), log_call (ValuesUpdate sheet rng vals) w))"

definition sheets_batchUpdate :: "string \<Rightarrow> world \<Rightarrow> (js_error + unit) \<times> world" where
  "sheets_batchUpdate sheet w =
    (case fault_now w of
       Some e \<Rightarrow> (Inl e, log_call (BatchUpdate sheet) w)
     | None \<Rightarrow> (Inr (), log_call (BatchUpdate sheet) w))"

section \<open>The program\<close>

subsection \<open>fetchAsanaProjects and fetchProjectTasks\<close>

definition fetchAsanaProjects :: "world \<Rightarrow> (js_error + project list) \<times> world" where
  "fetchAsanaProjects w = axios_get_projects w"

definition tasks_request :: "string \<Rightarrow> string option \<Rightarrow> request" where
  "tasks_request projectGid off =
    \<lparr>req_project = projectGid,
     req_opt_fields = ''name,completed,completed_at,due_on,due_at,assignee.name,notes,tags.name,custom_fields,created_at,modified_at,permalink_url'',
     req_limit = 100,
     req_offset = off\<rparr>"

text \<open>\<open>response.data.next_page?.offset\<close>.\<close>

definition next_offset :: "page \<Rightarrow> string option" where
  "next_offset body = (case next_page body of None \<Rightarrow> None | Some np \<Rightarrow> offset np)"

text \<open>
  The \<open>do ... while (offset)\<close> loop. Nothing bounds the number of pages, so the loop
  may run forever: \<open>None\<close> is the run that does not return. A request that throws leaves
  the function with the error, and the tasks gathered so far are lost.
\<close>

partial_function (option) fetch_pages ::
  "string \<Rightarrow> string option \<Rightarrow> task list \<Rightarrow> world \<Rightarrow> ((js_error + task list) \<times> world) option"
where
  "fetch_pages projectGid off tasks w =
    (case axios_get_tasks (tasks_request projectGid off) w of
       (Inl e, w') \<Rightarrow> Some (Inl e, w')
     | (Inr body, w') \<Rightarrow>
         (if truthy (next_offset body)
          then fetch_pages projectGid (next_offset body) (tasks @ data body) w'
          else Some (Inr (tasks @ data body), w')))"

definition fetchProjectTasks ::
  "string \<Rightarrow> world \<Rightarrow> ((js_error + task list) \<times> world) option" where
  "fetchProjectTasks projectGid w = fetch_pages projectGid None [] w"

subsection \<open>findOrCreateFolder\<close>

text \<open>
  The template literal of the search condition: the two values are put in as they
  are. The parent is the configured root folder identifier, a string or the missing
  value; the template turns it into a string, \<open>parents: [parentFolderId]\<close> sends it as
  it is.
\<close>

definition folder_query :: "string \<Rightarrow> string option \<Rightarrow> string" where
  "folder_query folderName parentFolderId =
    ''name='' @ quote # folderName @ quote # '' and '' @ quote # js_string parentFolderId @
    quote # '' in parents and mimeType='' @ quote # folder_mime @ quote #
    '' and trashed=false''"

definition findOrCreateFolder ::
  "string \<Rightarrow> string option \<Rightarrow> world \<Rightarrow> (js_error + string) \<times> world" where
  "findOrCreateFolder folderName parentFolderId =
    await (drive_files_list (folder_query folderName parentFolderId)) (\<lambda>found.
      case found of
        f # _ \<Rightarrow> (\<lambda>w. (Inr (file_id f), w))
      | [] \<Rightarrow> drive_files_create folderName folder_mime [parentFolderId])"

subsection \<open>createTasksSpreadsheet\<close>

text \<open>A project field written as it was received: a missing one is sent as \<open>null\<close>.\<close>

definition raw :: "string option \<Rightarrow> cell" where
  "raw v = (case v of None \<Rightarrow> Null | Some s \<Rightarrow> Str s)"

definition owner_name :: "project \<Rightarrow> string option" where
  "owner_name p = (case owner p of None \<Rightarrow> None | Some u \<Rightarrow> user_name u)"

definition projectInfo :: "project \<Rightarrow> task list \<Rightarrow> string \<Rightarrow> cell list list" where
  "projectInfo project tasks backup_date =
    [[Str ''Project Name'', Str (project_name project)],
     [Str ''Project ID'', Str (gid project)],
     [Str ''Created At'', raw (created_at project)],
     [Str ''Modified At'', raw (modified_at project)],
     [Str ''Owner'', Str (or_text (owner_name project) ''N/A'')],
     [Str ''Archived'', Str (if truthy_flag (archived project) then ''Yes'' else ''No'')],
     [Str ''Notes'', Str (or_text (project_notes project) '''')],
     [Str ''Backup Date'', Str backup_date],
     [Str ''Total Tasks'', Num (length tasks)],
     [Str ''Completed Tasks'', Num (length (filter (\<lambda>t. truthy_flag (completed t)) tasks))],
     [Str ''Incomplete Tasks'', Num (length (filter (\<lambda>t. \<not> truthy_flag (completed t)) tasks))]]"

text \<open>
  Five calls in sequence; the first that throws ends the function. The rows of the
  second tab are built, and the clock read, after the first tab has been written.
\<close>

definition createTasksSpreadsheet ::
  "string \<Rightarrow> string \<Rightarrow> project \<Rightarrow> task list \<Rightarrow> world \<Rightarrow> (js_error + string) \<times> world" where
  "createTasksSpreadsheet fileName folder project tasks =
    await (sheets_spreadsheets_create fileName [''Tasks'', ''Project Info'']) (\<lambda>sheet.
    await (drive_files_update sheet folder) (\<lambda>_.
    await (sheets_values_update sheet ''Tasks!A1''
             (map (map Str) (headers # task_rows tasks))) (\<lambda>_.
    await (\<lambda>w. sheets_values_update sheet ''Project Info!A1''
                  (projectInfo project tasks (now w)) w) (\<lambda>_.
    await (sheets_batchUpdate sheet) (\<lambda>_ w.
    (Inr sheet, w))))))"

subsection \<open>createProjectBackup\<close>

record backup_result =
  result_project :: string
  status :: string
  tasksCount :: "nat option"
  folderId :: "string option"
  spreadsheetId :: "string option"
  timestamp :: "string option"
  error :: "string option"

text \<open>\<open>iso.split('T')[0]\<close>.\<close>

definition date_part :: "string \<Rightarrow> string" where
  "date_part s = takeWhile (\<lambda>c. c \<noteq> CHR ''T'') s"

text \<open>
  The body runs in a \<open>try\<close>; whatever it throws is thrown again as a new error whose
  message names the project.
\<close>

definition createProjectBackup ::
  "config \<Rightarrow> project \<Rightarrow> task list \<Rightarrow> world \<Rightarrow> (js_error + backup_result) \<times> world" where
  "createProjectBackup cfg project tasks w =
    (case
       await (findOrCreateFolder (project_name project @ '' - Asana Backup'')
                (GOOGLE_DRIVE_FOLDER_ID cfg)) (\<lambda>folder w1.
       await (createTasksSpreadsheet (''Backup_'' @ date_part (now w1)) folder project tasks)
         (\<lambda>sheet w2.
           (Inr \<lparr>result_project = project_name project, status = ''success'',
                 tasksCount = Some (length tasks), folderId = Some folder,
                 spreadsheetId = Some sheet, timestamp = Some (date_part (now w1)),
                 error = None\<rparr>, w2)) w1) w
     of
       (Inl e, w') \<Rightarrow>
         (Inl (Error (''Failed to backup '' @ project_name project @ '': '' @ message e)), w')
     | (Inr r, w') \<Rightarrow> (Inr r, w'))"

subsection \<open>The handler of POST /backup-asana\<close>

text \<open>The entry pushed by the \<open>catch\<close> of the loop.\<close>

definition failed_result :: "project \<Rightarrow> js_error \<Rightarrow> backup_result" where
  "failed_result project e =
    \<lparr>result_project = project_name project, status = ''failed'', tasksCount = None,
     folderId = None, spreadsheetId = None, timestamp = None, error = Some (message e)\<rparr>"

text \<open>The \<open>try\<close> body of the loop, for one project: what it returns or throws.\<close>

definition attempt ::
  "config \<Rightarrow> project \<Rightarrow> world \<Rightarrow> ((js_error + backup_result) \<times> world) option" where
  "attempt cfg project w =
    (case fetchProjectTasks (gid project) w of
       None \<Rightarrow> None
     | Some (Inl e, w1) \<Rightarrow> Some (Inl e, w1)
     | Some (Inr tasks, w1) \<Rightarrow> Some (createProjectBackup cfg project tasks w1))"

text \<open>The \<open>for ... of\<close> loop, pushing one entry per project onto \<open>backupResults\<close>.\<close>

fun backup_loop ::
  "config \<Rightarrow> project list \<Rightarrow> backup_result list \<Rightarrow> world
    \<Rightarrow> (backup_result list \<times> world) option" where
  "backup_loop cfg [] backupResults w = Some (backupResults, w)"
| "backup_loop cfg (project # projects) backupResults w =
    (case attempt cfg project w of
       None \<Rightarrow> None
     | Some (Inr backupResult, w') \<Rightarrow>
         backup_loop cfg projects (backupResults @ [backupResult]) w'
     | Some (Inl e, w') \<Rightarrow>
         backup_loop cfg projects (backupResults @ [failed_result project e]) w')"

record summary =
  summary_timestamp :: string
  totalProjects :: nat
  successful :: nat
  failed :: nat
  results :: "backup_result list"

text \<open>
  The two answers of the route: \<open>{success: true, message, summary}\<close>, and status 500 with
  \<open>{success: false, error}\<close>.
\<close>

datatype http_response =
    Completed summary
  | Failed500 string

definition backup_asana :: "config \<Rightarrow> world \<Rightarrow> (http_response \<times> world) option" where
  "backup_asana cfg w =
    (case fetchAsanaProjects w of
       (Inl e, w1) \<Rightarrow> Some (Failed500 (message e), w1)
     | (Inr projects, w1) \<Rightarrow>
        (case backup_loop cfg projects [] w1 of
           None \<Rightarrow> None
         | Some (backupResults, w2) \<Rightarrow>
             Some (Completed
                    \<lparr>summary_timestamp = now w2,
                     totalProjects = length projects,
                     successful = length (filter (\<lambda>r. status r = ''success'') backupResults),
                     failed = length (filter (\<lambda>r. status r = ''failed'') backupResults),
                     results = backupResults\<rparr>, w2)))"

section \<open>Reading a row back\<close>

text \<open>
  The program has no inverse of the row projection. The round-trip property of the
  specification is stated against the reader below, which takes from a row what the
  property names: the name, the completion status, the due value and the tag names.
  \<open>split_sep\<close> cuts a string at every occurrence of comma-space, leftmost first, as
  \<open>String.prototype.split(', ')\<close> does.
\<close>

fun has_sep :: "string \<Rightarrow> bool" where
  "has_sep (c # d # cs) = ((c = CHR '','' \<and> d = CHR '' '') \<or> has_sep (d # cs))"
| "has_sep _ = False"

fun split_sep :: "string \<Rightarrow> string list" where
  "split_sep (c # d # cs) =
    (if c = CHR '','' \<and> d = CHR '' '' then [] # split_sep cs
     else (case split_sep (d # cs) of [] \<Rightarrow> [[c]] | w # ws \<Rightarrow> (c # w) # ws))"
| "split_sep cs = [cs]"

definition read_row :: "string list \<Rightarrow> string \<times> bool \<times> string \<times> string list" where
  "read_row r =
    (r ! 0, r ! 1 = ''Completed'', r ! 3, (if r ! 5 = [] then [] else split_sep (r ! 5)))"

text \<open>What the round trip is to recover, read off the task itself.\<close>

definition name_text :: "task \<Rightarrow> string" where
  "name_text t = (case task_name t of None \<Rightarrow> [] | Some s \<Rightarrow> s)"

definition is_completed :: "task \<Rightarrow> bool" where
  "is_completed t = (completed t = Some True)"

definition populated_due :: "task \<Rightarrow> string" where
  "populated_due t =
    (case due_on t of
       Some (c # cs) \<Rightarrow> c # cs
     | _ \<Rightarrow> (case due_at t of None \<Rightarrow> [] | Some s \<Rightarrow> s))"

definition tag_names :: "task \<Rightarrow> string list" where
  "tag_names t =
    (case tags t of None \<Rightarrow> []
     | Some ts \<Rightarrow> map (\<lambda>g. case tag_name g of None \<Rightarrow> [] | Some s \<Rightarrow> s) ts)"

definition blank_task :: task where
  "blank_task =
    \<lparr>task_name = None, completed = None, completed_at = None, due_on = None,
     due_at = None, assignee = None, task_notes = None, tags = None,
     task_created_at = None, task_modified_at = None, permalink_url = None\<rparr>"

definition named_tags :: "string list \<Rightarrow> tag list option" where
  "named_tags ns = Some (map (\<lambda>n. \<lparr>tag_name = Some n\<rparr>) ns)"

section \<open>Notions used to state the properties\<close>

subsection \<open>Pagination\<close>

text \<open>
  The source serves the finite sequence \<open>pages\<close> to the requests for project \<open>g\<close> that
  start at offset \<open>off\<close>: every page but the last carries a continuation token, under
  which the next page is served, and the last carries none.
\<close>

fun serves :: "world \<Rightarrow> string \<Rightarrow> string option \<Rightarrow> page list \<Rightarrow> bool" where
  "serves w g off [] = False"
| "serves w g off [p] =
    (asana_tasks w (tasks_request g off) = Inr p \<and> \<not> truthy (next_offset p))"
| "serves w g off (p # q # ps) =
    (asana_tasks w (tasks_request g off) = Inr p \<and> truthy (next_offset p)
     \<and> serves w g (next_offset p) (q # ps))"

text \<open>One request per page: the first at \<open>off\<close>, each later one at the token before it.\<close>

fun page_requests :: "string \<Rightarrow> string option \<Rightarrow> page list \<Rightarrow> request list" where
  "page_requests g off [] = []"
| "page_requests g off (p # ps) = tasks_request g off # page_requests g (next_offset p) ps"

subsection \<open>Observing the calls\<close>

text \<open>The calls made between two worlds of one run.\<close>

definition new_calls :: "world \<Rightarrow> world \<Rightarrow> call list" where
  "new_calls w w' = drop (length (log w)) (log w')"

text \<open>The writes to one range: the document written and the values sent.\<close>

fun writes_to :: "string \<Rightarrow> call list \<Rightarrow> (string \<times> cell list list) list" where
  "writes_to rng [] = []"
| "writes_to rng (ValuesUpdate sheet r vals # cs) =
    (if r = rng then (sheet, vals) # writes_to rng cs else writes_to rng cs)"
| "writes_to rng (_ # cs) = writes_to rng cs"

text \<open>
  The first failure the schedule holds for the next \<open>k\<close> calls, the first of them made
  when \<open>n\<close> calls have been logged; \<open>None\<close> when none of them fails.
\<close>

fun first_fault :: "world \<Rightarrow> nat \<Rightarrow> nat \<Rightarrow> js_error option" where
  "first_fault w n 0 = None"
| "first_fault w n (Suc k) =
    (case faults w n of Some e \<Rightarrow> Some e | None \<Rightarrow> first_fault w (Suc n) k)"

text \<open>The number of files created.\<close>

fun creates :: "call list \<Rightarrow> nat" where
  "creates [] = 0"
| "creates (FilesCreate nm mime ps # cs) = Suc (creates cs)"
| "creates (_ # cs) = creates cs"

subsection \<open>Folders\<close>

text \<open>A text without quote and backslash.\<close>

definition plain :: "string \<Rightarrow> bool" where
  "plain s = (quote \<notin> set s \<and> backslash \<notin> set s)"

text \<open>
  The folders of exactly that name under that parent that are not in the trash, in
  the store's order.
\<close>

definition matching :: "string \<Rightarrow> string \<Rightarrow> dfile list \<Rightarrow> dfile list" where
  "matching nm par fs =
    filter (\<lambda>f. file_name f = nm \<and> par \<in> set (parents f) \<and> mime_type f = folder_mime
                \<and> \<not> trashed f) fs"

subsection \<open>One failure among the projects\<close>

text \<open>
  Started in world \<open>w\<close>, the \<open>try\<close> body returns for every project of the list, each in
  the world its predecessor left.
\<close>

fun all_succeed :: "config \<Rightarrow> project list \<Rightarrow> world \<Rightarrow> bool" where
  "all_succeed cfg [] w = True"
| "all_succeed cfg (p # ps) w =
    (case attempt cfg p w of
       Some (Inr r, w') \<Rightarrow> all_succeed cfg ps w'
     | _ \<Rightarrow> False)"

text \<open>
  Started in world \<open>w\<close>, the \<open>try\<close> body throws \<open>e\<close> for the project at index \<open>k\<close> (its
  task fetch threw \<open>e\<close>, or its backup build did) and returns for every other project.
\<close>

fun isolated_failure :: "config \<Rightarrow> project list \<Rightarrow> nat \<Rightarrow> js_error \<Rightarrow> world \<Rightarrow> bool" where
  "isolated_failure cfg [] k e w = False"
| "isolated_failure cfg (p # ps) k e w =
    (case attempt cfg p w of
       None \<Rightarrow> False
     | Some (Inl e', w') \<Rightarrow> k = 0 \<and> e' = e \<and> all_succeed cfg ps w'
     | Some (Inr r, w') \<Rightarrow> (case k of 0 \<Rightarrow> False | Suc j \<Rightarrow> isolated_failure cfg ps j e w'))"

subsection \<open>Worlds for the examples\<close>

text \<open>
  A world with no project, no file and no failure, in which every task request is
  answered with one empty page.
\<close>

definition quiet_world :: world where
  "quiet_world =
    \<lparr>asana_projects = Inr [],
     asana_tasks = (\<lambda>_. Inr \<lparr>data = [], next_page = None\<rparr>),
     files = [],
     new_id = (\<lambda>n. ''id-'' @ replicate n (CHR ''i'')),
     faults = (\<lambda>_. None),
     clock = (\<lambda>n. ''2024-05-01T10:00:0'' @ replicate n (CHR ''0'') @ ''Z''),
     log = []\<rparr>"

definition folder_file :: "string \<Rightarrow> string \<Rightarrow> string \<Rightarrow> dfile" where
  "folder_file i nm par =
    \<lparr>file_id = i, file_name = nm, mime_type = folder_mime, parents = [par], trashed = False\<rparr>"

text \<open>Two pages of one task each, the first with the token \<open>tok\<close>.\<close>

definition paged_world :: world where
  "paged_world =
    quiet_world
      \<lparr>asana_tasks :=
         (\<lambda>req. if req_offset req = None
                then Inr \<lparr>data = [blank_task\<lparr>task_name := Some ''first''\<rparr>],
                          next_page = Some \<lparr>offset = Some ''tok''\<rparr>\<rparr>
                else Inr \<lparr>data = [blank_task\<lparr>task_name := Some ''second''\<rparr>],
                          next_page = None\<rparr>)\<rparr>"

text \<open>Three projects; the task request of the second is answered with an error.\<close>

definition demo_project :: "string \<Rightarrow> string \<Rightarrow> project" where
  "demo_project g nm =
    \<lparr>gid = g, project_name = nm, created_at = Some ''2024-01-01T00:00:00.000Z'',
     modified_at = None, archived = Some False, project_notes = None, owner = None\<rparr>"

definition demo_config :: config where
  "demo_config =
    \<lparr>ASANA_ACCESS_TOKEN = Some ''token'', ASANA_WORKSPACE_ID = Some ''42'',
     GOOGLE_DRIVE_FOLDER_ID = Some ''ROOT'', GOOGLE_SERVICE_ACCOUNT_KEY = Some ''{}''\<rparr>"

definition demo_world :: world where
  "demo_world =
    quiet_world
      \<lparr>asana_projects :=
         Inr [demo_project ''1'' ''Alpha'', demo_project ''2'' ''Beta'',
              demo_project ''3'' ''Gamma''],
       asana_tasks :=
         (\<lambda>req. if req_project req = ''2'' then Inl (Error ''Request failed with status code 500'')
                else Inr \<lparr>data = [], next_page = None\<rparr>)\<rparr>"

section \<open>Theorems\<close>

subsection \<open>The diagnostic route\<close>



lemma rejects_empty: "\<not> JSON_parse_accepts []"
  by (simp add: JSON_parse_accepts_def value_ended_def)

lemma rejects_undefined: "\<not> JSON_parse_accepts ''undefined''"
  by (simp add: JSON_parse_accepts_def start_value_def is_ws_def is_digit_def)

lemma rejects_secret: "\<not> JSON_parse_accepts ''secret''"
  by (simp add: JSON_parse_accepts_def start_value_def is_ws_def is_digit_def)


lemma module_not_loaded:
  "\<not> module_loads (cfg\<lparr>GOOGLE_SERVICE_ACCOUNT_KEY := None\<rparr>)"
  "\<not> module_loads (cfg\<lparr>GOOGLE_SERVICE_ACCOUNT_KEY := Some []\<rparr>)"
  "\<not> module_loads (cfg\<lparr>GOOGLE_SERVICE_ACCOUNT_KEY := Some ''secret''\<rparr>)"
  by (simp_all add: module_loads_def js_string_def rejects_undefined rejects_empty
      rejects_secret)





subsection \<open>Row projection\<close>

lemma or_text_empty: "or_text a [] = (case a of None \<Rightarrow> [] | Some s \<Rightarrow> s)"
  by (simp add: or_text_def split: option.splits)

lemma join_names_eq:
  "join_names (map tag_name ts) =
     join '', '' (map (\<lambda>g. case tag_name g of None \<Rightarrow> [] | Some s \<Rightarrow> s) ts)"
  by (simp add: join_names_def comp_def)

text \<open>The ten cells of a task's row, field by field.\<close>

lemma task_row_cells:
  "task_row t =
    [case task_name t of None \<Rightarrow> [] | Some s \<Rightarrow> s,
     if completed t = Some True then ''Completed'' else ''Incomplete'',
     case assignee t of
       None \<Rightarrow> ''Unassigned''
     | Some u \<Rightarrow>
        (case user_name u of
           None \<Rightarrow> ''Unassigned''
         | Some s \<Rightarrow> if s = [] then ''Unassigned'' else s),
     case due_on t of
       Some (c # cs) \<Rightarrow> c # cs
     | _ \<Rightarrow> (case due_at t of None \<Rightarrow> [] | Some s \<Rightarrow> s),
     case completed_at t of None \<Rightarrow> [] | Some s \<Rightarrow> s,
     case tags t of
       None \<Rightarrow> []
     | Some ts \<Rightarrow> join '', '' (map (\<lambda>g. case tag_name g of None \<Rightarrow> [] | Some s \<Rightarrow> s) ts),
     case task_notes t of None \<Rightarrow> [] | Some s \<Rightarrow> s,
     case permalink_url t of None \<Rightarrow> [] | Some s \<Rightarrow> s,
     case task_created_at t of None \<Rightarrow> [] | Some s \<Rightarrow> s,
     case task_modified_at t of None \<Rightarrow> [] | Some s \<Rightarrow> s]"
proof -
  have status: "truthy_flag (completed t) = (completed t = Some True)"
    by (simp add: truthy_flag_def split: option.splits)
  have who: "or_text (assignee_name t) ''Unassigned'' =
      (case assignee t of
         None \<Rightarrow> ''Unassigned''
       | Some u \<Rightarrow>
          (case user_name u of
             None \<Rightarrow> ''Unassigned''
           | Some s \<Rightarrow> if s = [] then ''Unassigned'' else s))"
    by (simp add: assignee_name_def or_text_def split: option.splits)
  have due: "or_text (or_field (due_on t) (due_at t)) [] =
      (case due_on t of
         Some (c # cs) \<Rightarrow> c # cs
       | _ \<Rightarrow> (case due_at t of None \<Rightarrow> [] | Some s \<Rightarrow> s))"
    by (simp add: or_field_def truthy_def or_text_def split: option.splits list.splits)
  have joined: "or_text (tags_joined t) [] =
      (case tags t of
         None \<Rightarrow> []
       | Some ts \<Rightarrow> join '', '' (map (\<lambda>g. case tag_name g of None \<Rightarrow> [] | Some s \<Rightarrow> s) ts))"
    by (simp add: tags_joined_def or_text_empty join_names_eq split: option.splits)
  show ?thesis
    unfolding task_row_def status who due joined
    by (simp add: or_text_empty)
qed

subsection \<open>Round trip through a row\<close>

lemma split_sep_no_sep: "\<not> has_sep x \<Longrightarrow> split_sep x = [x]"
  by (induction x rule: has_sep.induct) auto

lemma split_sep_append:
  "\<not> has_sep x \<Longrightarrow> split_sep (x @ '', '' @ r) = x # split_sep r"
  by (induction x rule: has_sep.induct) auto

lemma split_join:
  "xs \<noteq> [] \<Longrightarrow> \<forall>x\<in>set xs. \<not> has_sep x \<Longrightarrow> split_sep (join '', '' xs) = xs"
proof (induction "'', ''" xs rule: join.induct)
  case 1
  then show ?case by simp
next
  case (2 x)
  then show ?case by (simp add: split_sep_no_sep)
next
  case (3 x y ys)
  then show ?case using split_sep_append[of x "join '', '' (y # ys)"] by simp
qed

lemma join_empty_iff: "(join '', '' xs = []) = (xs = [] \<or> xs = [[]])"
  by (induction "'', ''" xs rule: join.induct) auto

lemma row_tags_cell: "task_row t ! 5 = join '', '' (tag_names t)"
  by (simp add: task_row_def tags_joined_def tag_names_def or_text_empty join_names_eq
      split: option.splits)

lemma row_due_cell: "task_row t ! 3 = populated_due t"
  by (simp add: task_row_def populated_due_def or_field_def truthy_def or_text_def
      split: option.splits list.splits)

text \<open>
  C4, as stated, fails: the comma-space join is not invertible on tag lists. A task
  with the one tag \<open>a, b\<close> and a task with the two tags \<open>a\<close> and \<open>b\<close> have the same row,
  and so have a task with one empty-named tag and a task with no tag; no reader of
  rows can tell them apart.
\<close>

theorem row_roundtrip_counterexample:
  "task_row (blank_task\<lparr>tags := named_tags [''a, b'']\<rparr>)
     = task_row (blank_task\<lparr>tags := named_tags [''a'', ''b'']\<rparr>)
   \<and> tag_names (blank_task\<lparr>tags := named_tags [''a, b'']\<rparr>)
     \<noteq> tag_names (blank_task\<lparr>tags := named_tags [''a'', ''b'']\<rparr>)
   \<and> task_row (blank_task\<lparr>tags := named_tags [[]]\<rparr>)
     = task_row (blank_task\<lparr>tags := named_tags []\<rparr>)
   \<and> tag_names (blank_task\<lparr>tags := named_tags [[]]\<rparr>)
     \<noteq> tag_names (blank_task\<lparr>tags := named_tags []\<rparr>)"
  by (simp add: task_row_def blank_task_def named_tags_def tag_names_def tags_joined_def
      join_names_def or_text_def assignee_name_def or_field_def truthy_def)

text \<open>
  C4, amended: for every task none of whose tag names contains a comma followed by a
  space, and whose tag list is not a single tag with an empty name, reading the row
  back gives the task's name (empty when absent), its completion flag, its populated
  due value (the date-only field when it holds a value, else the date-time field) and
  its tag names in order.
\<close>

theorem row_roundtrip:
  assumes "\<forall>n\<in>set (tag_names t). \<not> has_sep n" and "tag_names t \<noteq> [[]]"
  shows "read_row (task_row t) = (name_text t, is_completed t, populated_due t, tag_names t)"
proof -
  have n: "task_row t ! 0 = name_text t"
    by (simp add: task_row_def name_text_def or_text_empty)
  have c: "(task_row t ! 1 = ''Completed'') = is_completed t"
    by (simp add: task_row_def is_completed_def truthy_flag_def split: option.splits)
  have g: "(if task_row t ! 5 = [] then [] else split_sep (task_row t ! 5)) = tag_names t"
  proof (cases "tag_names t = []")
    case True
    then show ?thesis by (simp add: row_tags_cell)
  next
    case False
    with assms show ?thesis by (simp add: row_tags_cell join_empty_iff split_join)
  qed
  show ?thesis
    unfolding read_row_def n c g row_due_cell by simp
qed

theorem row_roundtrip_witness:
  "list_all (\<lambda>n. \<not> has_sep n) [''urgent'', ''home,office'', ''x,'']
   \<and> read_row (task_row (blank_task\<lparr>task_name := Some ''Ship it'', completed := Some True,
       due_at := Some ''2024-05-01T10:00:00.000Z'',
       tags := named_tags [''urgent'', ''home,office'', ''x,'']\<rparr>))
   = (''Ship it'', True, ''2024-05-01T10:00:00.000Z'', [''urgent'', ''home,office'', ''x,''])"
  using row_roundtrip[of "blank_task\<lparr>task_name := Some ''Ship it'', completed := Some True,
       due_at := Some ''2024-05-01T10:00:00.000Z'',
       tags := named_tags [''urgent'', ''home,office'', ''x,'']\<rparr>"]
  by (simp add: tag_names_def named_tags_def blank_task_def name_text_def is_completed_def
      populated_due_def)

subsection \<open>Pagination\<close>

lemma log_call_fields [simp]:
  "log (log_call c w) = log w @ [c]"
  "files (log_call c w) = files w"
  "asana_tasks (log_call c w) = asana_tasks w"
  "asana_projects (log_call c w) = asana_projects w"
  "faults (log_call c w) = faults w"
  "clock (log_call c w) = clock w"
  "new_id (log_call c w) = new_id w"
  by (simp_all add: log_call_def)

lemma fetch_pages_serves:
  "serves w g off pages \<Longrightarrow> asana_tasks w0 = asana_tasks w \<Longrightarrow>
   fetch_pages g off acc w0 =
     Some (Inr (acc @ concat (map data pages)),
           w0\<lparr>log := log w0 @ map GetTasks (page_requests g off pages)\<rparr>)"
proof (induction w g off pages arbitrary: acc w0 rule: serves.induct)
  case (1 w g off)
  then show ?case by simp
next
  case (2 w g off p)
  then show ?case
    by (subst fetch_pages.simps) (simp add: axios_get_tasks_def log_call_def)
next
  case (3 w g off p q ps)
  have "fetch_pages g (next_offset p) (acc @ data p) (log_call (GetTasks (tasks_request g off)) w0)
      = Some (Inr ((acc @ data p) @ concat (map data (q # ps))),
           (log_call (GetTasks (tasks_request g off)) w0)
             \<lparr>log := log (log_call (GetTasks (tasks_request g off)) w0)
                     @ map GetTasks (page_requests g (next_offset p) (q # ps))\<rparr>)"
    using 3 by (intro "3.IH") simp_all
  with 3 show ?case
    by (subst fetch_pages.simps) (simp add: axios_get_tasks_def log_call_def)
qed

lemma page_requests_length: "length (page_requests g off pages) = length pages"
  by (induction pages arbitrary: off) simp_all

lemma page_requests_limit: "r \<in> set (page_requests g off pages) \<Longrightarrow> req_limit r = 100"
  by (induction pages arbitrary: off) (auto simp: tasks_request_def)

lemma page_requests_offsets:
  "pages \<noteq> [] \<Longrightarrow>
   map req_offset (page_requests g off pages) = off # map next_offset (butlast pages)"
  by (induction pages arbitrary: off) (auto simp: tasks_request_def)

text \<open>
  C2: for every project id and every source that serves a finite sequence of pages,
  each carrying a continuation token except the last, \<open>fetchProjectTasks\<close> returns, and
  returns exactly the concatenation of the pages' task lists in page order. It makes
  one request per page and nothing else: each asks for at most 100 tasks, the first
  carries no offset and each later one the token of the page before it, so no request
  follows the first page that lacks a token.
\<close>

theorem fetchProjectTasks_pages:
  assumes "serves w g None pages"
  shows "fetchProjectTasks g w =
           Some (Inr (concat (map data pages)),
                 w\<lparr>log := log w @ map GetTasks (page_requests g None pages)\<rparr>)
         \<and> length (page_requests g None pages) = length pages
         \<and> list_all (\<lambda>r. req_limit r = 100) (page_requests g None pages)
         \<and> map req_offset (page_requests g None pages) = None # map next_offset (butlast pages)"
proof -
  from assms have "pages \<noteq> []" by auto
  then show ?thesis
    using fetch_pages_serves[OF assms, of w "[]"]
    by (simp add: fetchProjectTasks_def page_requests_length list_all_iff page_requests_limit
        page_requests_offsets)
qed

theorem fetchProjectTasks_pages_witness:
  "fetchProjectTasks ''7'' paged_world =
     Some (Inr [blank_task\<lparr>task_name := Some ''first''\<rparr>,
                blank_task\<lparr>task_name := Some ''second''\<rparr>],
           paged_world\<lparr>log := [GetTasks (tasks_request ''7'' None),
                                 GetTasks (tasks_request ''7'' (Some ''tok''))]\<rparr>)"
  using fetchProjectTasks_pages[of paged_world "''7''"
      "[\<lparr>data = [blank_task\<lparr>task_name := Some ''first''\<rparr>],
          next_page = Some \<lparr>offset = Some ''tok''\<rparr>\<rparr>,
        \<lparr>data = [blank_task\<lparr>task_name := Some ''second''\<rparr>], next_page = None\<rparr>]"]
  by (simp add: paged_world_def quiet_world_def tasks_request_def next_offset_def truthy_def)

subsection \<open>The two tabs of a document\<close>

lemma new_calls_append [simp]: "log w' = log w @ cs \<Longrightarrow> new_calls w w' = cs"
  by (simp add: new_calls_def)

lemma createTasksSpreadsheet_calls:
  "new_calls w (snd (createTasksSpreadsheet fileName folder project tasks w)) =
    (let n = length (log w); sheet = new_id w (length (files w)) in
     SpreadsheetsCreate fileName [''Tasks'', ''Project Info''] #
     (if faults w n \<noteq> None then [] else
      FilesUpdate sheet folder #
      (if faults w (n + 1) \<noteq> None then [] else
       ValuesUpdate sheet ''Tasks!A1'' (map (map Str) (headers # task_rows tasks)) #
       (if faults w (n + 2) \<noteq> None then [] else
        ValuesUpdate sheet ''Project Info!A1'' (projectInfo project tasks (clock w (n + 3))) #
        (if faults w (n + 3) \<noteq> None then [] else
         [BatchUpdate sheet])))))"
  by (simp add: createTasksSpreadsheet_def await_def sheets_spreadsheets_create_def
      drive_files_update_def sheets_values_update_def sheets_batchUpdate_def
      fault_now_def now_def Let_def eval_nat_numeral split: option.splits)

lemma createTasksSpreadsheet_result:
  "fst (createTasksSpreadsheet fileName folder project tasks w) =
    (let n = length (log w) in
     case faults w n of Some e \<Rightarrow> Inl e | None \<Rightarrow>
     (case faults w (n + 1) of Some e \<Rightarrow> Inl e | None \<Rightarrow>
     (case faults w (n + 2) of Some e \<Rightarrow> Inl e | None \<Rightarrow>
     (case faults w (n + 3) of Some e \<Rightarrow> Inl e | None \<Rightarrow>
     (case faults w (n + 4) of Some e \<Rightarrow> Inl e | None \<Rightarrow>
        Inr (new_id w (length (files w))))))))"
  by (simp add: createTasksSpreadsheet_def await_def sheets_spreadsheets_create_def
      drive_files_update_def sheets_values_update_def sheets_batchUpdate_def
      fault_now_def now_def Let_def eval_nat_numeral split: option.splits)

lemma first_fault_2:
  "(first_fault w n 2 = None) = (faults w n = None \<and> faults w (n + 1) = None)"
  by (simp add: eval_nat_numeral split: option.splits)

lemma first_fault_3:
  "(first_fault w n 3 = None) =
     (faults w n = None \<and> faults w (n + 1) = None \<and> faults w (n + 2) = None)"
  by (simp add: eval_nat_numeral split: option.splits)

lemma createTasksSpreadsheet_first_fault:
  "fst (createTasksSpreadsheet fileName folder project tasks w) =
    (case first_fault w (length (log w)) 5 of
       Some e \<Rightarrow> Inl e
     | None \<Rightarrow> Inr (new_id w (length (files w))))"
  by (simp add: createTasksSpreadsheet_result Let_def eval_nat_numeral split: option.splits)

lemma tasks_tab_write:
  "writes_to ''Tasks!A1''
     (new_calls w (snd (createTasksSpreadsheet fileName folder project tasks w))) =
   (if first_fault w (length (log w)) 2 = None
    then [(new_id w (length (files w)), map (map Str) (headers # task_rows tasks))]
    else [])"
  by (simp add: createTasksSpreadsheet_calls first_fault_2 Let_def)

lemma info_tab_write:
  "writes_to ''Project Info!A1''
     (new_calls w (snd (createTasksSpreadsheet fileName folder project tasks w))) =
   (if first_fault w (length (log w)) 3 = None
    then [(new_id w (length (files w)),
           projectInfo project tasks (clock w (length (log w) + 3)))]
    else [])"
  by (simp add: createTasksSpreadsheet_calls first_fault_3 Let_def)

lemma quiet_first_fault: "faults w = (\<lambda>_. None) \<Longrightarrow> first_fault w n k = None"
  by (induction k arbitrary: n) simp_all

text \<open>
  C3: for every task list, \<open>createTasksSpreadsheet\<close> writes to the Tasks tab, in one
  write to the document it creates, the header row followed by one row per task, in
  task order; the row of a task is the list of ten cells, in this order: the name
  (empty when absent); \<open>Completed\<close> when the completion flag is set, else \<open>Incomplete\<close>;
  the assignee's name, or \<open>Unassigned\<close> when there is no assignee or no (non-empty)
  name; the date-only due field when it holds a value, else the date-time due field,
  else the empty string; the completion timestamp or the empty string; the tag names
  joined by comma-space, or the empty string; the notes, the permanent URL, the
  creation and the modification timestamps, each or the empty string. (A field holding
  the empty string counts as absent, which shows only in the assignee and due
  columns.) The write is made whenever the two calls before it, which create the
  document and move it, do not fail, and not otherwise; the function returns the
  document's identifier when none of its five calls fails, and else throws the first
  failure.
\<close>

theorem tasks_tab_rows:
  "writes_to ''Tasks!A1''
     (new_calls w (snd (createTasksSpreadsheet fileName folder project tasks w))) =
   (if first_fault w (length (log w)) 2 = None
    then [(new_id w (length (files w)),
           map (map Str)
             ([''Task Name'', ''Status'', ''Assignee'', ''Due Date'', ''Completed Date'',
               ''Tags'', ''Notes'', ''URL'', ''Created At'', ''Modified At''] #
              map (\<lambda>t.
                [case task_name t of None \<Rightarrow> [] | Some s \<Rightarrow> s,
                 if completed t = Some True then ''Completed'' else ''Incomplete'',
                 case assignee t of
                   None \<Rightarrow> ''Unassigned''
                 | Some u \<Rightarrow>
                    (case user_name u of
                       None \<Rightarrow> ''Unassigned''
                     | Some s \<Rightarrow> if s = [] then ''Unassigned'' else s),
                 case due_on t of
                   Some (c # cs) \<Rightarrow> c # cs
                 | _ \<Rightarrow> (case due_at t of None \<Rightarrow> [] | Some s \<Rightarrow> s),
                 case completed_at t of None \<Rightarrow> [] | Some s \<Rightarrow> s,
                 case tags t of
                   None \<Rightarrow> []
                 | Some ts \<Rightarrow>
                    join '', '' (map (\<lambda>g. case tag_name g of None \<Rightarrow> [] | Some s \<Rightarrow> s) ts),
                 case task_notes t of None \<Rightarrow> [] | Some s \<Rightarrow> s,
                 case permalink_url t of None \<Rightarrow> [] | Some s \<Rightarrow> s,
                 case task_created_at t of None \<Rightarrow> [] | Some s \<Rightarrow> s,
                 case task_modified_at t of None \<Rightarrow> [] | Some s \<Rightarrow> s]) tasks))]
    else [])
   \<and> fst (createTasksSpreadsheet fileName folder project tasks w) =
       (case first_fault w (length (log w)) 5 of
          Some e \<Rightarrow> Inl e
        | None \<Rightarrow> Inr (new_id w (length (files w))))"
proof -
  have rows: "task_rows tasks =
      map (\<lambda>t.
        [case task_name t of None \<Rightarrow> [] | Some s \<Rightarrow> s,
         if completed t = Some True then ''Completed'' else ''Incomplete'',
         case assignee t of
           None \<Rightarrow> ''Unassigned''
         | Some u \<Rightarrow>
            (case user_name u of
               None \<Rightarrow> ''Unassigned''
             | Some s \<Rightarrow> if s = [] then ''Unassigned'' else s),
         case due_on t of
           Some (c # cs) \<Rightarrow> c # cs
         | _ \<Rightarrow> (case due_at t of None \<Rightarrow> [] | Some s \<Rightarrow> s),
         case completed_at t of None \<Rightarrow> [] | Some s \<Rightarrow> s,
         case tags t of
           None \<Rightarrow> []
         | Some ts \<Rightarrow>
            join '', '' (map (\<lambda>g. case tag_name g of None \<Rightarrow> [] | Some s \<Rightarrow> s) ts),
         case task_notes t of None \<Rightarrow> [] | Some s \<Rightarrow> s,
         case permalink_url t of None \<Rightarrow> [] | Some s \<Rightarrow> s,
         case task_created_at t of None \<Rightarrow> [] | Some s \<Rightarrow> s,
         case task_modified_at t of None \<Rightarrow> [] | Some s \<Rightarrow> s]) tasks"
    unfolding task_rows_def by (rule map_cong[OF refl]) (rule task_row_cells)
  show ?thesis
    unfolding tasks_tab_write createTasksSpreadsheet_first_fault rows headers_def
    by simp
qed

theorem tasks_tab_rows_witness:
  "writes_to ''Tasks!A1''
     (new_calls quiet_world
        (snd (createTasksSpreadsheet ''Backup_2024-05-01'' ''F1'' (demo_project ''1'' ''Alpha'')
           [blank_task\<lparr>task_name := Some ''Ship it'', completed := Some True,
              due_at := Some ''2024-05-01T10:00:00.000Z'', tags := named_tags [''a'', ''b'']\<rparr>,
            blank_task]
           quiet_world))) =
   [(''id-'',
     map (map Str)
       [[''Task Name'', ''Status'', ''Assignee'', ''Due Date'', ''Completed Date'',
         ''Tags'', ''Notes'', ''URL'', ''Created At'', ''Modified At''],
        [''Ship it'', ''Completed'', ''Unassigned'', ''2024-05-01T10:00:00.000Z'', '''',
         ''a, b'', '''', '''', '''', ''''],
        ['''', ''Incomplete'', ''Unassigned'', '''', '''', '''', '''', '''', '''', '''']])]
   \<and> fst (createTasksSpreadsheet ''Backup_2024-05-01'' ''F1'' (demo_project ''1'' ''Alpha'')
           [blank_task\<lparr>task_name := Some ''Ship it'', completed := Some True,
              due_at := Some ''2024-05-01T10:00:00.000Z'', tags := named_tags [''a'', ''b'']\<rparr>,
            blank_task]
           quiet_world) = Inr ''id-''"
  using tasks_tab_rows[of quiet_world "''Backup_2024-05-01''" "''F1''" "demo_project ''1'' ''Alpha''"
      "[blank_task\<lparr>task_name := Some ''Ship it'', completed := Some True,
          due_at := Some ''2024-05-01T10:00:00.000Z'', tags := named_tags [''a'', ''b'']\<rparr>,
        blank_task]"]
  by (simp add: quiet_first_fault quiet_world_def blank_task_def named_tags_def)

text \<open>
  C7: for every project whose task list is empty, \<open>createTasksSpreadsheet\<close> writes to
  the Tasks tab of the document it creates exactly one row, the fixed header row of
  ten columns, and no task row. The write is made, once, whenever the two calls
  before it do not fail, and not otherwise; the function returns the document's
  identifier when none of its five calls fails, and else throws the first failure.
\<close>

theorem empty_project_tasks_tab:
  "writes_to ''Tasks!A1''
     (new_calls w (snd (createTasksSpreadsheet fileName folder project [] w))) =
   (if first_fault w (length (log w)) 2 = None
    then [(new_id w (length (files w)),
           [[Str ''Task Name'', Str ''Status'', Str ''Assignee'', Str ''Due Date'',
             Str ''Completed Date'', Str ''Tags'', Str ''Notes'', Str ''URL'',
             Str ''Created At'', Str ''Modified At'']])]
    else [])
   \<and> fst (createTasksSpreadsheet fileName folder project [] w) =
       (case first_fault w (length (log w)) 5 of
          Some e \<Rightarrow> Inl e
        | None \<Rightarrow> Inr (new_id w (length (files w))))"
  unfolding tasks_tab_write createTasksSpreadsheet_first_fault
  by (simp add: headers_def task_rows_def)

theorem empty_project_tasks_tab_witness:
  "writes_to ''Tasks!A1''
     (new_calls quiet_world
        (snd (createTasksSpreadsheet ''Backup_2024-05-01'' ''F1'' (demo_project ''2'' ''Beta'') []
           quiet_world))) =
   [(''id-'',
     [[Str ''Task Name'', Str ''Status'', Str ''Assignee'', Str ''Due Date'',
       Str ''Completed Date'', Str ''Tags'', Str ''Notes'', Str ''URL'',
       Str ''Created At'', Str ''Modified At'']])]
   \<and> fst (createTasksSpreadsheet ''Backup_2024-05-01'' ''F1'' (demo_project ''2'' ''Beta'') []
           quiet_world) = Inr ''id-''"
  using empty_project_tasks_tab[of quiet_world "''Backup_2024-05-01''" "''F1''"
      "demo_project ''2'' ''Beta''"]
  by (simp add: quiet_first_fault quiet_world_def)

lemma projectInfo_rows:
  "projectInfo project tasks d =
    [[Str ''Project Name'', Str (project_name project)],
     [Str ''Project ID'', Str (gid project)],
     [Str ''Created At'', (case created_at project of None \<Rightarrow> Null | Some s \<Rightarrow> Str s)],
     [Str ''Modified At'', (case modified_at project of None \<Rightarrow> Null | Some s \<Rightarrow> Str s)],
     [Str ''Owner'',
      Str (case owner project of
             None \<Rightarrow> ''N/A''
           | Some u \<Rightarrow>
              (case user_name u of
                 None \<Rightarrow> ''N/A''
               | Some s \<Rightarrow> if s = [] then ''N/A'' else s))],
     [Str ''Archived'', Str (if archived project = Some True then ''Yes'' else ''No'')],
     [Str ''Notes'', Str (case project_notes project of None \<Rightarrow> [] | Some s \<Rightarrow> s)],
     [Str ''Backup Date'', Str d],
     [Str ''Total Tasks'', Num (length tasks)],
     [Str ''Completed Tasks'', Num (length (filter (\<lambda>t. completed t = Some True) tasks))],
     [Str ''Incomplete Tasks'', Num (length (filter (\<lambda>t. completed t \<noteq> Some True) tasks))]]"
proof -
  have flag: "truthy_flag v = (v = Some True)" for v
    by (simp add: truthy_flag_def split: option.splits)
  have who: "or_text (owner_name project) ''N/A'' =
      (case owner project of
         None \<Rightarrow> ''N/A''
       | Some u \<Rightarrow>
          (case user_name u of
             None \<Rightarrow> ''N/A''
           | Some s \<Rightarrow> if s = [] then ''N/A'' else s))"
    by (simp add: owner_name_def or_text_def split: option.splits)
  show ?thesis
    unfolding projectInfo_def flag who raw_def by (simp add: or_text_empty)
qed

text \<open>
  C8: for every project and task list, \<open>createTasksSpreadsheet\<close> writes to the Project
  Info tab of the document it creates exactly eleven key/value rows, in this order:
  the project's name; its identifier; its creation and its modification timestamp (as
  received, \<open>null\<close> when absent); the owner's name, or \<open>N/A\<close> when there is no owner or
  no (non-empty) name; \<open>Yes\<close> or \<open>No\<close> from the archived flag; the notes (empty when
  absent); a fresh timestamp, the time read from the clock when the rows are built,
  which is after the three calls that precede them; the number of tasks; the number of
  tasks whose completion flag is set; the number of tasks whose flag is not set. The
  write is made, once, whenever the three calls before it do not fail, and not
  otherwise; the function returns the document's identifier when none of its five
  calls fails, and else throws the first failure.
\<close>

theorem project_info_tab:
  "writes_to ''Project Info!A1''
     (new_calls w (snd (createTasksSpreadsheet fileName folder project tasks w))) =
   (if first_fault w (length (log w)) 3 = None
    then [(new_id w (length (files w)),
           [[Str ''Project Name'', Str (project_name project)],
            [Str ''Project ID'', Str (gid project)],
            [Str ''Created At'', (case created_at project of None \<Rightarrow> Null | Some s \<Rightarrow> Str s)],
            [Str ''Modified At'', (case modified_at project of None \<Rightarrow> Null | Some s \<Rightarrow> Str s)],
            [Str ''Owner'',
             Str (case owner project of
                    None \<Rightarrow> ''N/A''
                  | Some u \<Rightarrow>
                     (case user_name u of
                        None \<Rightarrow> ''N/A''
                      | Some s \<Rightarrow> if s = [] then ''N/A'' else s))],
            [Str ''Archived'', Str (if archived project = Some True then ''Yes'' else ''No'')],
            [Str ''Notes'', Str (case project_notes project of None \<Rightarrow> [] | Some s \<Rightarrow> s)],
            [Str ''Backup Date'', Str (clock w (length (log w) + 3))],
            [Str ''Total Tasks'', Num (length tasks)],
            [Str ''Completed Tasks'',
             Num (length (filter (\<lambda>t. completed t = Some True) tasks))],
            [Str ''Incomplete Tasks'',
             Num (length (filter (\<lambda>t. completed t \<noteq> Some True) tasks))]])]
    else [])
   \<and> fst (createTasksSpreadsheet fileName folder project tasks w) =
       (case first_fault w (length (log w)) 5 of
          Some e \<Rightarrow> Inl e
        | None \<Rightarrow> Inr (new_id w (length (files w))))"
  unfolding info_tab_write createTasksSpreadsheet_first_fault projectInfo_rows
  by simp

theorem project_info_tab_witness:
  "writes_to ''Project Info!A1''
     (new_calls quiet_world
        (snd (createTasksSpreadsheet ''Backup_2024-05-01'' ''F1'' (demo_project ''1'' ''Alpha'')
           [blank_task\<lparr>completed := Some True\<rparr>, blank_task, blank_task]
           quiet_world))) =
   [(''id-'',
     [[Str ''Project Name'', Str ''Alpha''],
      [Str ''Project ID'', Str ''1''],
      [Str ''Created At'', Str ''2024-01-01T00:00:00.000Z''],
      [Str ''Modified At'', Null],
      [Str ''Owner'', Str ''N/A''],
      [Str ''Archived'', Str ''No''],
      [Str ''Notes'', Str ''''],
      [Str ''Backup Date'', Str ''2024-05-01T10:00:0000Z''],
      [Str ''Total Tasks'', Num 3],
      [Str ''Completed Tasks'', Num 1],
      [Str ''Incomplete Tasks'', Num 2]])]
   \<and> fst (createTasksSpreadsheet ''Backup_2024-05-01'' ''F1'' (demo_project ''1'' ''Alpha'')
           [blank_task\<lparr>completed := Some True\<rparr>, blank_task, blank_task]
           quiet_world) = Inr ''id-''"
  using project_info_tab[of quiet_world "''Backup_2024-05-01''" "''F1''"
      "demo_project ''1'' ''Alpha''"
      "[blank_task\<lparr>completed := Some True\<rparr>, blank_task, blank_task]"]
  by (simp add: quiet_first_fault quiet_world_def demo_project_def blank_task_def
      eval_nat_numeral)

subsection \<open>Folder search\<close>

lemma read_literal_plain: "plain s \<Longrightarrow> read_literal (s @ quote # r) = Some (s, r)"
  by (induction s) (auto simp: plain_def)

lemma quote_neq: "quote \<noteq> CHR ''n''" "quote \<noteq> CHR ''m''" "quote \<noteq> CHR ''t''"
  by (simp_all add: quote_def)

lemma read_clause_name:
  "plain v \<Longrightarrow> read_clause (''name='' @ quote # v @ quote # r) = Some (NameIs v, r)"
  by (simp add: read_clause_def after_def quoted_def read_literal_plain)

lemma read_clause_parents:
  "plain v \<Longrightarrow> read_clause (quote # v @ quote # '' in parents'' @ r) = Some (InParents v, r)"
  by (simp add: read_clause_def after_def quoted_def read_literal_plain quote_neq)

lemma read_clause_mime:
  "plain v \<Longrightarrow> read_clause (''mimeType='' @ quote # v @ quote # r) = Some (MimeTypeIs v, r)"
  by (simp add: read_clause_def after_def quoted_def read_literal_plain)

lemma read_clause_trashed: "read_clause ''trashed=false'' = Some (TrashedIs False, [])"
  by (simp add: read_clause_def after_def)

lemma plain_folder_mime: "plain folder_mime"
  by (simp add: plain_def folder_mime_def quote_def backslash_def)

text \<open>
  For a name and a parent without quote and backslash, the condition the program
  writes is read by the store as the four clauses it means.
\<close>

lemma parse_folder_query:
  assumes "plain nm" and "plain par"
  shows "parse_query (folder_query nm (Some par)) =
           Some [NameIs nm, InParents par, MimeTypeIs folder_mime, TrashedIs False]"
proof -
  have c4: "read_clauses ''trashed=false'' = Some [TrashedIs False]"
    by (subst read_clauses.simps) (simp add: read_clause_trashed)
  have c3: "read_clauses (''mimeType='' @ quote # folder_mime @ quote # '' and trashed=false'')
      = Some [MimeTypeIs folder_mime, TrashedIs False]"
    by (subst read_clauses.simps)
       (simp add: read_clause_mime[OF plain_folder_mime, simplified] after_def c4[simplified])
  have c2: "read_clauses (quote # par @ quote # '' in parents'' @ '' and mimeType='' @ quote #
        folder_mime @ quote # '' and trashed=false'')
      = Some [InParents par, MimeTypeIs folder_mime, TrashedIs False]"
    by (subst read_clauses.simps)
       (simp add: read_clause_parents[OF assms(2), simplified] after_def c3[simplified])
  have c1: "read_clauses (''name='' @ quote # nm @ quote # '' and '' @ quote # par @ quote #
        '' in parents'' @ '' and mimeType='' @ quote # folder_mime @ quote #
        '' and trashed=false'')
      = Some [NameIs nm, InParents par, MimeTypeIs folder_mime, TrashedIs False]"
    by (subst read_clauses.simps)
       (simp add: read_clause_name[OF assms(1), simplified] after_def c2[simplified])
  then show ?thesis
    by (simp add: parse_query_def folder_query_def js_string_def)
qed

lemma satisfies_folder:
  "filter (satisfies [NameIs nm, InParents par, MimeTypeIs folder_mime, TrashedIs False]) fs
     = matching nm par fs"
  unfolding matching_def by (rule filter_cong) (simp_all add: satisfies_def)

text \<open>
  What \<open>findOrCreateFolder\<close> does for such a name and parent: the search selects exactly
  the folders of that name under that parent that are not in the trash; the first
  one's identifier is returned and nothing is created, or, when there is none, a folder
  is created under the parent and its identifier returned.
\<close>

lemma findOrCreateFolder_plain:
  assumes "plain nm" and "plain par"
  shows "findOrCreateFolder nm (Some par) w =
    (case faults w (length (log w)) of
       Some e \<Rightarrow> (Inl e, log_call (FilesList (folder_query nm (Some par))) w)
     | None \<Rightarrow>
        (case matching nm par (files w) of
           f # fs \<Rightarrow> (Inr (file_id f), log_call (FilesList (folder_query nm (Some par))) w)
         | [] \<Rightarrow> drive_files_create nm folder_mime [Some par]
                  (log_call (FilesList (folder_query nm (Some par))) w)))"
  by (simp add: findOrCreateFolder_def await_def drive_files_list_def fault_now_def
      parse_folder_query[OF assms] satisfies_folder split: option.splits list.splits)

text \<open>
  With the root folder identifier unset, the search asks for the parent \<open>undefined\<close>
  and, when nothing matches, the create is sent with the missing value as its parent.
\<close>

lemma findOrCreateFolder_unset_parent:
  assumes "plain nm" and "faults w = (\<lambda>_. None)"
    and "matching nm ''undefined'' (files w) = []"
  shows "new_calls w (snd (findOrCreateFolder nm None w)) =
           [FilesList (folder_query nm None), FilesCreate nm folder_mime [None]]"
proof -
  have q: "folder_query nm None = folder_query nm (Some ''undefined'')"
    by (simp add: folder_query_def js_string_def)
  have p: "plain ''undefined''"
    by (simp add: plain_def quote_def backslash_def)
  show ?thesis
    using assms(2,3)
    by (simp add: findOrCreateFolder_def await_def drive_files_list_def fault_now_def
        parse_folder_query[OF assms(1) p, folded q] satisfies_folder
        drive_files_create_def new_calls_def)
qed

lemma matching_append:
  "matching nm par (fs @ gs) = matching nm par fs @ matching nm par gs"
  by (simp add: matching_def)

lemma matching_created:
  "matching nm par [\<lparr>file_id = i, file_name = nm, mime_type = folder_mime,
      parents = [par], trashed = False\<rparr>]
   = [\<lparr>file_id = i, file_name = nm, mime_type = folder_mime, parents = [par], trashed = False\<rparr>]"
  by (simp add: matching_def)

lemma plain_alpha: "plain ''Alpha - Asana Backup''" "plain ''ROOT''"
  by (simp_all add: plain_def quote_def backslash_def)

text \<open>
  C5, as stated, fails: when the folder exists before the first call, both calls
  return its identifier and no folder is created at all, not exactly one.
\<close>

theorem findOrCreateFolder_twice_counterexample:
  "(case findOrCreateFolder ''Alpha - Asana Backup'' (Some ''ROOT'')
           (quiet_world\<lparr>files := [folder_file ''F1'' ''Alpha - Asana Backup'' ''ROOT'']\<rparr>) of
      (r1, w1) \<Rightarrow>
        (case findOrCreateFolder ''Alpha - Asana Backup'' (Some ''ROOT'') w1 of
           (r2, w2) \<Rightarrow>
             r1 = Inr ''F1'' \<and> r2 = Inr ''F1''
             \<and> creates (new_calls
                   (quiet_world\<lparr>files := [folder_file ''F1'' ''Alpha - Asana Backup'' ''ROOT'']\<rparr>)
                   w2) = 0))"
  by (simp add: findOrCreateFolder_plain[OF plain_alpha] quiet_world_def folder_file_def
      matching_def new_calls_def log_call_def)

text \<open>
  C5, amended: for every folder name and parent id without quote and backslash, and a
  store whose calls do not fail, two calls of \<open>findOrCreateFolder\<close> in sequence return
  the same identifier, that of the first matching folder of the store after the first
  call; the second call finds that folder and creates nothing; and in total exactly
  one folder is created when no folder matched before the first call, and none when
  one did.
\<close>

theorem findOrCreateFolder_twice:
  assumes "plain nm" and "plain par" and "faults w = (\<lambda>_. None)"
    and "findOrCreateFolder nm (Some par) w = (r1, w1)"
    and "findOrCreateFolder nm (Some par) w1 = (r2, w2)"
  shows "(\<exists>f fs. matching nm par (files w1) = f # fs
            \<and> r1 = Inr (file_id f) \<and> r2 = Inr (file_id f))
       \<and> creates (new_calls w1 w2) = 0
       \<and> files w2 = files w1
       \<and> creates (new_calls w w2) = (if matching nm par (files w) = [] then 1 else 0)"
proof (cases "matching nm par (files w)")
  case Nil
  with assms(3,4) have 1: "r1 = Inr (new_id w (length (files w)))"
    "w1 = log_call (FilesCreate nm folder_mime [Some par])
            ((log_call (FilesList (folder_query nm (Some par))) w)
              \<lparr>files := files w @ [\<lparr>file_id = new_id w (length (files w)), file_name = nm,
                   mime_type = folder_mime, parents = [par], trashed = False\<rparr>]\<rparr>)"
    by (auto simp: findOrCreateFolder_plain[OF assms(1,2)] drive_files_create_def fault_now_def)
  from assms(3,5) have 2: "r2 = Inr (new_id w (length (files w)))"
    "w2 = log_call (FilesList (folder_query nm (Some par))) w1"
    by (auto simp: findOrCreateFolder_plain[OF assms(1,2)] 1(2) matching_append Nil
        matching_created)
  show ?thesis
    by (simp add: 1 2 Nil new_calls_def matching_append matching_created)
next
  case (Cons f fs)
  with assms(3,4) have 1: "r1 = Inr (file_id f)"
    "w1 = log_call (FilesList (folder_query nm (Some par))) w"
    by (auto simp: findOrCreateFolder_plain[OF assms(1,2)])
  from assms(3,5) Cons have 2: "r2 = Inr (file_id f)"
    "w2 = log_call (FilesList (folder_query nm (Some par))) w1"
    by (auto simp: findOrCreateFolder_plain[OF assms(1,2)] 1(2))
  show ?thesis
    by (simp add: 1 2 Cons new_calls_def)
qed

theorem findOrCreateFolder_twice_witness:
  "plain ''Alpha - Asana Backup'' \<and> plain ''ROOT''
   \<and> fst (findOrCreateFolder ''Alpha - Asana Backup'' (Some ''ROOT'') quiet_world) = Inr ''id-''
   \<and> fst (findOrCreateFolder ''Alpha - Asana Backup'' (Some ''ROOT'')
              (snd (findOrCreateFolder ''Alpha - Asana Backup'' (Some ''ROOT'') quiet_world)))
       = Inr ''id-''
   \<and> creates (new_calls quiet_world
        (snd (findOrCreateFolder ''Alpha - Asana Backup'' (Some ''ROOT'')
           (snd (findOrCreateFolder ''Alpha - Asana Backup'' (Some ''ROOT'') quiet_world))))) = 1"
  using findOrCreateFolder_twice[OF plain_alpha, of quiet_world
      "fst (findOrCreateFolder ''Alpha - Asana Backup'' (Some ''ROOT'') quiet_world)"
      "snd (findOrCreateFolder ''Alpha - Asana Backup'' (Some ''ROOT'') quiet_world)"
      "fst (findOrCreateFolder ''Alpha - Asana Backup'' (Some ''ROOT'')
              (snd (findOrCreateFolder ''Alpha - Asana Backup'' (Some ''ROOT'') quiet_world)))"
      "snd (findOrCreateFolder ''Alpha - Asana Backup'' (Some ''ROOT'')
              (snd (findOrCreateFolder ''Alpha - Asana Backup'' (Some ''ROOT'') quiet_world)))"]
  by (simp add: plain_alpha findOrCreateFolder_plain[OF plain_alpha] quiet_world_def
      matching_def drive_files_create_def fault_now_def folder_mime_def)

text \<open>
  C6, at a failing input: the folder name \<open>Bob's - Asana Backup\<close> (the project \<open>Bob's\<close>),
  in a store that holds a folder of exactly that name under the parent. The name is put
  between quotes as it is, its own quote ends the literal after \<open>Bob\<close>, and the store
  refuses the condition: the call throws, where the property has it return \<open>F7\<close>.
\<close>

theorem findOrCreateFolder_quote_failing_input:
  "matching ''Bob's - Asana Backup'' ''ROOT''
     (files (quiet_world\<lparr>files := [folder_file ''F7'' ''Bob's - Asana Backup'' ''ROOT'']\<rparr>))
     = [folder_file ''F7'' ''Bob's - Asana Backup'' ''ROOT'']
   \<and> findOrCreateFolder ''Bob's - Asana Backup'' (Some ''ROOT'')
       (quiet_world\<lparr>files := [folder_file ''F7'' ''Bob's - Asana Backup'' ''ROOT'']\<rparr>)
     = (Inl (Error ''Invalid Value''),
        log_call (FilesList (folder_query ''Bob's - Asana Backup'' (Some ''ROOT'')))
          (quiet_world\<lparr>files := [folder_file ''F7'' ''Bob's - Asana Backup'' ''ROOT'']\<rparr>))"
proof -
  have "parse_query (folder_query ''Bob's - Asana Backup'' (Some ''ROOT'')) = None"
    unfolding parse_query_def folder_query_def js_string_def
    by (subst read_clauses.simps)
       (simp add: read_clause_def after_def quoted_def quote_def backslash_def)
  then show ?thesis
    by (simp add: findOrCreateFolder_def await_def drive_files_list_def fault_now_def
        quiet_world_def matching_def folder_file_def)
qed

subsection \<open>The loop over the projects\<close>

lemma createProjectBackup_success:
  "createProjectBackup cfg p tasks w = (Inr r, w') \<Longrightarrow>
     status r = ''success'' \<and> result_project r = project_name p \<and> error r = None"
  by (auto simp: createProjectBackup_def await_def split: prod.splits sum.splits)

lemma attempt_success:
  "attempt cfg p w = Some (Inr r, w') \<Longrightarrow>
     status r = ''success'' \<and> result_project r = project_name p \<and> error r = None"
  by (auto simp: attempt_def split: option.splits prod.splits sum.splits
      dest: createProjectBackup_success)

text \<open>
  The \<open>try\<close> body throws exactly when the task fetch throws, with that error, or the
  fetch returns and the backup build throws, with the error the build throws.
\<close>

lemma attempt_throws_iff:
  "attempt cfg p w = Some (Inl e, w') \<longleftrightarrow>
     fetchProjectTasks (gid p) w = Some (Inl e, w')
   \<or> (\<exists>tasks w1. fetchProjectTasks (gid p) w = Some (Inr tasks, w1)
         \<and> createProjectBackup cfg p tasks w1 = (Inl e, w'))"
  by (auto simp: attempt_def split: option.splits prod.splits sum.splits)

lemma backup_loop_all_succeed:
  "all_succeed cfg ps w \<Longrightarrow>
   \<exists>rs w'. backup_loop cfg ps acc w = Some (acc @ rs, w')
     \<and> map status rs = replicate (length ps) ''success''
     \<and> map error rs = replicate (length ps) None
     \<and> map result_project rs = map project_name ps"
proof (induction ps arbitrary: acc w)
  case Nil
  then show ?case by simp
next
  case (Cons p ps)
  from Cons.prems obtain r w1 where a: "attempt cfg p w = Some (Inr r, w1)"
    and rest: "all_succeed cfg ps w1"
    by (auto split: option.splits prod.splits sum.splits)
  from Cons.IH[OF rest, of "acc @ [r]"] obtain rs w' where
    "backup_loop cfg ps (acc @ [r]) w1 = Some ((acc @ [r]) @ rs, w')"
    "map status rs = replicate (length ps) ''success''"
    "map error rs = replicate (length ps) None"
    "map result_project rs = map project_name ps"
    by blast
  with a attempt_success[OF a] show ?case
    by (intro exI[of _ "r # rs"] exI[of _ w']) simp
qed

lemma backup_loop_isolated:
  "isolated_failure cfg ps k e w \<Longrightarrow>
   \<exists>rs w'. backup_loop cfg ps acc w = Some (acc @ rs, w')
     \<and> k < length ps
     \<and> map status rs = (replicate (length ps) ''success'')[k := ''failed'']
     \<and> map error rs = (replicate (length ps) None)[k := Some (message e)]
     \<and> map result_project rs = map project_name ps"
proof (induction ps arbitrary: acc w k)
  case Nil
  then show ?case by simp
next
  case (Cons p ps)
  from Cons.prems consider
    (threw) w1 where "attempt cfg p w = Some (Inl e, w1)" "k = 0" "all_succeed cfg ps w1"
  | (passed) r w1 j where "attempt cfg p w = Some (Inr r, w1)" "k = Suc j"
      "isolated_failure cfg ps j e w1"
    by (auto split: option.splits prod.splits sum.splits nat.splits)
  then show ?case
  proof cases
    case threw
    from backup_loop_all_succeed[OF threw(3), of "acc @ [failed_result p e]"]
    obtain rs w' where
      "backup_loop cfg ps (acc @ [failed_result p e]) w1
         = Some ((acc @ [failed_result p e]) @ rs, w')"
      "map status rs = replicate (length ps) ''success''"
      "map error rs = replicate (length ps) None"
      "map result_project rs = map project_name ps"
      by blast
    with threw show ?thesis
      by (intro exI[of _ "failed_result p e # rs"] exI[of _ w'])
         (simp add: failed_result_def)
  next
    case passed
    from Cons.IH[OF passed(3), of "acc @ [r]"] obtain rs w' where
      "backup_loop cfg ps (acc @ [r]) w1 = Some ((acc @ [r]) @ rs, w')"
      "j < length ps"
      "map status rs = (replicate (length ps) ''success'')[j := ''failed'']"
      "map error rs = (replicate (length ps) None)[j := Some (message e)]"
      "map result_project rs = map project_name ps"
      by blast
    with passed attempt_success[OF passed(1)] show ?thesis
      by (intro exI[of _ "r # rs"] exI[of _ w']) simp
  qed
qed



lemma backup_loop_shape:
  "backup_loop cfg ps acc w = Some (rs, w') \<Longrightarrow>
   \<exists>new. rs = acc @ new \<and> length new = length ps
     \<and> map result_project new = map project_name ps
     \<and> (\<forall>r\<in>set new. status r = ''success'' \<or> status r = ''failed'')"
proof (induction ps arbitrary: acc w)
  case Nil
  then show ?case by simp
next
  case (Cons p ps)
  from Cons.prems consider
    (threw) e w1 where "attempt cfg p w = Some (Inl e, w1)"
      "backup_loop cfg ps (acc @ [failed_result p e]) w1 = Some (rs, w')"
  | (passed) r w1 where "attempt cfg p w = Some (Inr r, w1)"
      "backup_loop cfg ps (acc @ [r]) w1 = Some (rs, w')"
    by (auto split: option.splits prod.splits sum.splits)
  then show ?case
  proof cases
    case threw
    from Cons.IH[OF threw(2)] obtain new where
      "rs = (acc @ [failed_result p e]) @ new" "length new = length ps"
      "map result_project new = map project_name ps"
      "\<forall>r\<in>set new. status r = ''success'' \<or> status r = ''failed''"
      by blast
    then show ?thesis
      by (intro exI[of _ "failed_result p e # new"]) (simp add: failed_result_def)
  next
    case passed
    from Cons.IH[OF passed(2)] obtain new where
      "rs = (acc @ [r]) @ new" "length new = length ps"
      "map result_project new = map project_name ps"
      "\<forall>r\<in>set new. status r = ''success'' \<or> status r = ''failed''"
      by blast
    with attempt_success[OF passed(1)] show ?thesis
      by (intro exI[of _ "r # new"]) simp
  qed
qed

lemma count_two_statuses:
  "\<forall>r\<in>set rs. status r = a \<or> status r = b \<Longrightarrow> a \<noteq> b \<Longrightarrow>
   length (filter (\<lambda>r. status r = a) rs) + length (filter (\<lambda>r. status r = b) rs) = length rs"
  by (induction rs) auto

subsection \<open>Runs of the example worlds\<close>

lemma createProjectBackup_ok:
  assumes "faults w = (\<lambda>_. None)"
    and "plain (project_name p @ '' - Asana Backup'')"
    and "GOOGLE_DRIVE_FOLDER_ID cfg = Some root" and "plain root"
  shows "\<exists>r w'. createProjectBackup cfg p tasks w = (Inr r, w')
     \<and> faults w' = faults w \<and> asana_tasks w' = asana_tasks w"
  using assms(1)
  by (simp add: createProjectBackup_def await_def assms(3) findOrCreateFolder_plain[OF assms(2,4)]
      drive_files_create_def createTasksSpreadsheet_def sheets_spreadsheets_create_def
      drive_files_update_def sheets_values_update_def sheets_batchUpdate_def fault_now_def
      split: list.splits)

lemma fetch_single_page:
  assumes "asana_tasks w (tasks_request g None) = Inr pg" and "\<not> truthy (next_offset pg)"
  shows "fetchProjectTasks g w =
     Some (Inr (data pg), log_call (GetTasks (tasks_request g None)) w)"
  using fetch_pages_serves[of w g None "[pg]" w "[]"] assms
  by (simp add: fetchProjectTasks_def log_call_def)

lemma attempt_ok:
  assumes "faults w = (\<lambda>_. None)"
    and "asana_tasks w (tasks_request (gid p) None) = Inr pg" and "\<not> truthy (next_offset pg)"
    and "plain (project_name p @ '' - Asana Backup'')"
    and "GOOGLE_DRIVE_FOLDER_ID cfg = Some root" and "plain root"
  shows "\<exists>r w'. attempt cfg p w = Some (Inr r, w')
     \<and> faults w' = faults w \<and> asana_tasks w' = asana_tasks w"
  using createProjectBackup_ok[of "log_call (GetTasks (tasks_request (gid p) None)) w" p cfg
      root "data pg"] assms
  by (auto simp: attempt_def fetch_single_page[OF assms(2,3)])

lemma attempt_fetch_fails:
  assumes "asana_tasks w (tasks_request (gid p) None) = Inl e"
  shows "attempt cfg p w = Some (Inl e, log_call (GetTasks (tasks_request (gid p) None)) w)"
  using assms
  by (simp add: attempt_def fetchProjectTasks_def axios_get_tasks_def
      fetch_pages.simps[of "gid p" None "[]" w])

lemma demo_isolated:
  "isolated_failure demo_config
     [demo_project ''1'' ''Alpha'', demo_project ''2'' ''Beta'', demo_project ''3'' ''Gamma'']
     1 (Error ''Request failed with status code 500'') (log_call GetProjects demo_world)"
proof -
  let ?w0 = "log_call GetProjects demo_world"
  have cfg: "GOOGLE_DRIVE_FOLDER_ID demo_config = Some ''ROOT''" "plain ''ROOT''"
    by (simp_all add: demo_config_def plain_def quote_def backslash_def)
  have src: "asana_tasks demo_world =
      (\<lambda>req. if req_project req = ''2'' then Inl (Error ''Request failed with status code 500'')
             else Inr \<lparr>data = [], next_page = None\<rparr>)"
    and quiet: "faults demo_world = (\<lambda>_. None)"
    by (simp_all add: demo_world_def quiet_world_def)
  obtain r1 w1 where a1: "attempt demo_config (demo_project ''1'' ''Alpha'') ?w0 = Some (Inr r1, w1)"
    and f1: "faults w1 = faults ?w0" "asana_tasks w1 = asana_tasks ?w0"
    using attempt_ok[of ?w0 "demo_project ''1'' ''Alpha''" "\<lparr>data = [], next_page = None\<rparr>"
        demo_config "''ROOT''", OF _ _ _ _ cfg]
    by (auto simp: quiet src demo_project_def tasks_request_def next_offset_def truthy_def
        plain_def quote_def backslash_def)
  let ?w2 = "log_call (GetTasks (tasks_request ''2'' None)) w1"
  have a2: "attempt demo_config (demo_project ''2'' ''Beta'') w1 =
      Some (Inl (Error ''Request failed with status code 500''), ?w2)"
    using attempt_fetch_fails[of w1 "demo_project ''2'' ''Beta''"
        "Error ''Request failed with status code 500''" demo_config]
    by (simp add: f1 src demo_project_def tasks_request_def)
  obtain r3 w3 where a3: "attempt demo_config (demo_project ''3'' ''Gamma'') ?w2 = Some (Inr r3, w3)"
    using attempt_ok[of ?w2 "demo_project ''3'' ''Gamma''" "\<lparr>data = [], next_page = None\<rparr>"
        demo_config "''ROOT''", OF _ _ _ _ cfg]
    by (auto simp: f1 quiet src demo_project_def tasks_request_def next_offset_def truthy_def
        plain_def quote_def backslash_def)
  show ?thesis
    using a1 a2 a3 by (simp add: demo_project_def)
qed

lemma demo_projects:
  "asana_projects demo_world =
     Inr [demo_project ''1'' ''Alpha'', demo_project ''2'' ''Beta'', demo_project ''3'' ''Gamma'']"
  by (simp add: demo_world_def quiet_world_def)

lemma demo_completes:
  "\<exists>s w'. backup_asana demo_config demo_world = Some (Completed s, w')"
  using backup_loop_isolated[OF demo_isolated, of "[]"]
  by (auto simp: backup_asana_def fetchAsanaProjects_def axios_get_projects_def demo_projects)

subsection \<open>Isolation of a project's failure\<close>



subsection \<open>The counts of a Summary\<close>

text \<open>
  C10: every Summary of a completed run satisfies successful + failed = totalProjects
  = length of results; every entry's status is \<open>success\<close> or \<open>failed\<close>; the source
  answered the project listing with a list, totalProjects is its length, and the
  entries name its projects one by one, in order.
\<close>

theorem summary_counts:
  assumes "backup_asana cfg w = Some (Completed s, w')"
  shows "successful s + failed s = totalProjects s
     \<and> totalProjects s = length (results s)
     \<and> (\<forall>r\<in>set (results s). status r = ''success'' \<or> status r = ''failed'')
     \<and> (\<exists>ps. asana_projects w = Inr ps \<and> totalProjects s = length ps
           \<and> map result_project (results s) = map project_name ps)"
proof -
  from assms obtain ps rs where ps: "asana_projects w = Inr ps"
    and run: "backup_loop cfg ps [] (log_call GetProjects w) = Some (rs, w')"
    and s: "s = \<lparr>summary_timestamp = now w', totalProjects = length ps,
        successful = length (filter (\<lambda>r. status r = ''success'') rs),
        failed = length (filter (\<lambda>r. status r = ''failed'') rs), results = rs\<rparr>"
    by (auto simp: backup_asana_def fetchAsanaProjects_def axios_get_projects_def
        split: sum.splits option.splits prod.splits)
  from backup_loop_shape[OF run] have shape: "length rs = length ps"
    "map result_project rs = map project_name ps"
    "\<forall>r\<in>set rs. status r = ''success'' \<or> status r = ''failed''"
    by auto
  from count_two_statuses[OF shape(3)] shape ps show ?thesis
    by (simp add: s)
qed

theorem summary_counts_witness:
  "\<exists>s w'. backup_asana demo_config demo_world = Some (Completed s, w')
     \<and> successful s + failed s = totalProjects s
     \<and> totalProjects s = length (results s)
     \<and> totalProjects s = 3
     \<and> list_all (\<lambda>r. status r = ''success'' \<or> status r = ''failed'') (results s)"
proof -
  from demo_completes obtain s w' where
    run: "backup_asana demo_config demo_world = Some (Completed s, w')"
    by blast
  from summary_counts[OF run] show ?thesis
    by (auto simp: run demo_projects list_all_iff)
qed

end
